theory Spec2Isabelle
  imports Main "HOL-Library.Monad_Syntax" "HOL-Library.Multiset"
begin

section \<open>The registry build script\<close>

text \<open>
  A shallow embedding of \<^verbatim>\<open>scripts/build-registry.mts\<close>: the script merges the static
  registry with the crawled items, validates the list, and writes the index modules, the
  registry index, one style document per item, and the colour and theme documents.

  Strings are lists of characters. The file system, the console and the exit code are an
  explicit state. What the script imports from modules that are not part of the script
  (the registry, the crawler, the two schemas, the colour tables) and the library calls
  whose text the script never inspects (\<^verbatim>\<open>path.join\<close>, \<^verbatim>\<open>path.resolve\<close>,
  \<^verbatim>\<open>JSON.stringify\<close>, lodash's \<^verbatim>\<open>template\<close>) are the fields of one record of
  collaborators, so that every theorem holds for all of them.
\<close>

subsection \<open>String operations of the host language\<close>

text \<open>\<^verbatim>\<open>s.startsWith(p)\<close>, and the rest of \<open>s\<close> behind a literal prefix.\<close>

fun strip_prefix :: "string \<Rightarrow> string \<Rightarrow> string option" where
  "strip_prefix [] s = Some s"
| "strip_prefix (p # ps) [] = None"
| "strip_prefix (p # ps) (c # cs) = (if p = c then strip_prefix ps cs else None)"

definition startsWith :: "string \<Rightarrow> string \<Rightarrow> bool" where
  "startsWith s p = (strip_prefix p s \<noteq> None)"

text \<open>\<^verbatim>\<open>s.split(sep)\<close> for a separator of one character: never the empty array.\<close>

fun split :: "char \<Rightarrow> string \<Rightarrow> string list" where
  "split sep [] = [[]]"
| "split sep (c # cs) =
     (if c = sep then [] # split sep cs
      else (case split sep cs of
              [] \<Rightarrow> [[c]]
            | x # xs \<Rightarrow> (c # x) # xs))"

text \<open>\<^verbatim>\<open>xs[i]\<close>: \<open>None\<close> is \<^verbatim>\<open>undefined\<close>.\<close>

fun nth_opt :: "'a list \<Rightarrow> nat \<Rightarrow> 'a option" where
  "nth_opt [] i = None"
| "nth_opt (x # xs) 0 = Some x"
| "nth_opt (x # xs) (Suc i) = nth_opt xs i"

text \<open>A value inside a template literal: \<^verbatim>\<open>undefined\<close> prints as the word.\<close>

definition interpolate :: "string option \<Rightarrow> string" where
  "interpolate v = (case v of None \<Rightarrow> ''undefined'' | Some s \<Rightarrow> s)"

text \<open>\<^verbatim>\<open>v ?? ""\<close>.\<close>

definition or_empty :: "string option \<Rightarrow> string" where
  "or_empty v = (case v of None \<Rightarrow> [] | Some s \<Rightarrow> s)"

text \<open>\<^verbatim>\<open>xs.join(sep)\<close>; an array inside a template literal is joined with a comma.\<close>

fun join :: "string \<Rightarrow> string list \<Rightarrow> string" where
  "join sep [] = []"
| "join sep [x] = x"
| "join sep (x # y # ys) = x @ sep @ join sep (y # ys)"

text \<open>
  \<^verbatim>\<open>value.replace(/\{\{base\}\}-/g, `${baseColor}-`)\<close>: every occurrence of the literal
  \<^verbatim>\<open>{{base}}-\<close>, left to right, becomes the family name and a dash. (The script only
  passes the five family names, which hold no \<^verbatim>\<open>$\<close>.)
\<close>

lemma strip_prefix_length:
  "strip_prefix p s = Some r \<Longrightarrow> length s = length p + length r"
  by (induction p s rule: strip_prefix.induct) (auto split: if_splits)

function replace_base :: "string \<Rightarrow> string \<Rightarrow> string" where
  "replace_base baseColor [] = []"
| "replace_base baseColor (c # cs) =
     (case strip_prefix ''{{base}}-'' (c # cs) of
        Some rest \<Rightarrow> baseColor @ ''-'' @ replace_base baseColor rest
      | None \<Rightarrow> c # replace_base baseColor cs)"
  by pat_completeness auto
termination
proof (relation "measure (\<lambda>(b, s). length s)")
  fix baseColor :: string and c :: char and cs rest :: string
  assume "strip_prefix ''{{base}}-'' (c # cs) = Some rest"
  from strip_prefix_length [OF this]
  show "((baseColor, rest), (baseColor, c # cs)) \<in> measure (\<lambda>(b, s). length s)"
    by simp
qed simp_all

text \<open>
  Numbers are doubles. The script compares a shade's \<^verbatim>\<open>scale\<close> with a result of
  \<^verbatim>\<open>Number.parseInt\<close>, so the numbers that matter are the integers among the doubles
  and the two infinities. \<open>to_number n\<close> is the double nearest to the integer \<open>n\<close>
  (ties to the even significand): \<open>n\<close> itself up to 53 bits, a multiple of a power of
  two beyond, an infinity when the nearest value needs more than 1024 bits (from
  \<open>2 ^ 1024 - 2 ^ 970\<close> on).
\<close>

datatype number = Finite int | PositiveInfinity | NegativeInfinity

function bit_length :: "int \<Rightarrow> nat" where
  "bit_length n = (if n \<le> 0 then 0 else Suc (bit_length (n div 2)))"
  by pat_completeness auto
termination
  by (relation "measure nat") auto

declare bit_length.simps [simp del]

definition nearest_double :: "int \<Rightarrow> int option" where
  "nearest_double m =
     (if m < 2 ^ 53 then Some m
      else
        let e = bit_length m - 53;
            q = m div 2 ^ e;
            r = m mod 2 ^ e;
            q' = (if 2 ^ e < 2 * r \<or> (2 * r = 2 ^ e \<and> odd q) then q + 1 else q);
            v = q' * 2 ^ e
        in if 1024 < bit_length v then None else Some v)"

definition to_number :: "int \<Rightarrow> number" where
  "to_number n =
     (case nearest_double \<bar>n\<bar> of
        None \<Rightarrow> if n < 0 then NegativeInfinity else PositiveInfinity
      | Some v \<Rightarrow> Finite (if n < 0 then - v else v))"

text \<open>
  \<^verbatim>\<open>Number.parseInt(s)\<close>: white space is skipped, then a sign, then \<^verbatim>\<open>0x\<close> selects
  radix 16, and the longest run of digits is read; the result is the double nearest to
  the integer the digits write. \<open>None\<close> is \<^verbatim>\<open>NaN\<close>. (White space is the ASCII one.)
\<close>

definition is_space :: "char \<Rightarrow> bool" where
  "is_space c = (c \<in> set [CHR 0x09, CHR 0x0A, CHR 0x0B, CHR 0x0C, CHR 0x0D, CHR 0x20])"

definition digit_value :: "char \<Rightarrow> int option" where
  "digit_value c =
     (let n = of_char c :: int in
      if 48 \<le> n \<and> n \<le> 57 then Some (n - 48)
      else if 97 \<le> n \<and> n \<le> 122 then Some (n - 87)
      else if 65 \<le> n \<and> n \<le> 90 then Some (n - 55)
      else None)"

definition is_radix_digit :: "int \<Rightarrow> char \<Rightarrow> bool" where
  "is_radix_digit radix c = (case digit_value c of None \<Rightarrow> False | Some d \<Rightarrow> d < radix)"

definition digits_value :: "int \<Rightarrow> string \<Rightarrow> int" where
  "digits_value radix ds = foldl (\<lambda>acc c. acc * radix + (case digit_value c of None \<Rightarrow> 0 | Some d \<Rightarrow> d)) 0 ds"

definition parseInt :: "string \<Rightarrow> number option" where
  "parseInt s =
     (let s1 = dropWhile is_space s;
          negative = (case s1 of c # _ \<Rightarrow> c = CHR ''-'' | [] \<Rightarrow> False);
          s2 = (case s1 of c # r \<Rightarrow> if c = CHR ''-'' \<or> c = CHR ''+'' then r else s1 | [] \<Rightarrow> s1);
          hex = (startsWith s2 ''0x'' \<or> startsWith s2 ''0X'');
          radix = (if hex then 16 else 10);
          s3 = (if hex then drop 2 s2 else s2);
          ds = takeWhile (is_radix_digit radix) s3
      in if ds = [] then None
         else Some (to_number
                (if negative then - digits_value radix ds else digits_value radix ds)))"

subsection \<open>The two channel patterns\<close>

text \<open>
  The colour index computes a channel string with
  \<^verbatim>\<open>rgb.replace(/^rgb\((\d+),(\d+),(\d+)\)$/, "$1 $2 $3")\<close> and
  \<^verbatim>\<open>hsl.replace(/^hsl\(([\d.]+),([\d.]+%),([\d.]+%)\)$/, "$1 $2 $3")\<close>.
  Each pattern is anchored at both ends, so it matches the whole string or nothing, and a
  string that does not match is returned unchanged. A greedy run of a character class
  that is followed by a character outside the class is the longest run, so the matcher
  below needs no backtracking. The second and third group of the HSL pattern include
  the percent sign.
\<close>

definition is_digit :: "char \<Rightarrow> bool" where
  "is_digit c = (c \<in> set ''0123456789'')"

definition is_digit_or_dot :: "char \<Rightarrow> bool" where
  "is_digit_or_dot c = (c \<in> set ''0123456789.'')"

text \<open>A non-empty run of the class \<open>P\<close>, and the rest.\<close>

definition many1 :: "(char \<Rightarrow> bool) \<Rightarrow> string \<Rightarrow> (string \<times> string) option" where
  "many1 P s = (if takeWhile P s = [] then None else Some (takeWhile P s, dropWhile P s))"

definition rgb_groups :: "string \<Rightarrow> (string \<times> string \<times> string) option" where
  "rgb_groups s = do {
     s1 \<leftarrow> strip_prefix ''rgb('' s;
     (g1, s2) \<leftarrow> many1 is_digit s1;
     s3 \<leftarrow> strip_prefix '','' s2;
     (g2, s4) \<leftarrow> many1 is_digit s3;
     s5 \<leftarrow> strip_prefix '','' s4;
     (g3, s6) \<leftarrow> many1 is_digit s5;
     if s6 = '')'' then Some (g1, g2, g3) else None
   }"

definition hsl_groups :: "string \<Rightarrow> (string \<times> string \<times> string) option" where
  "hsl_groups s = do {
     s1 \<leftarrow> strip_prefix ''hsl('' s;
     (g1, s2) \<leftarrow> many1 is_digit_or_dot s1;
     s3 \<leftarrow> strip_prefix '','' s2;
     (n2, s4) \<leftarrow> many1 is_digit_or_dot s3;
     s5 \<leftarrow> strip_prefix ''%,'' s4;
     (n3, s6) \<leftarrow> many1 is_digit_or_dot s5;
     if s6 = ''%)'' then Some (g1, n2 @ ''%'', n3 @ ''%'') else None
   }"

definition rgbChannel_of :: "string \<Rightarrow> string" where
  "rgbChannel_of s =
     (case rgb_groups s of None \<Rightarrow> s | Some (g1, g2, g3) \<Rightarrow> g1 @ '' '' @ g2 @ '' '' @ g3)"

definition hslChannel_of :: "string \<Rightarrow> string" where
  "hslChannel_of s =
     (case hsl_groups s of None \<Rightarrow> s | Some (g1, g2, g3) \<Rightarrow> g1 @ '' '' @ g2 @ '' '' @ g3)"

subsection \<open>Registry items\<close>

text \<open>
  A file of an item is a bare path or an object with \<^verbatim>\<open>path\<close>, \<^verbatim>\<open>type\<close> and an
  optional \<^verbatim>\<open>target\<close>: the script tests \<^verbatim>\<open>typeof file === "string"\<close>. An item has the
  properties the script reads; whatever else the schema keeps is the rest of the record,
  carried along by every spread \<^verbatim>\<open>{...item}\<close>.
\<close>

record file_object =
  path :: string
  file_type :: string
  target :: "string option"

datatype registry_file = FileString string | FileObject file_object

record 'f item =
  name :: string
  type :: string
  description :: "string option"
  registryDependencies :: "string list option"
  files :: "'f list option"
  category :: "string option"
  subcategory :: "string option"

type_synonym 'z Registry = "(registry_file, 'z) item_scheme list"

text \<open>\<^verbatim>\<open>file.path\<close>: a string has no such property.\<close>

fun path_of :: "registry_file \<Rightarrow> string option" where
  "path_of (FileString s) = None"
| "path_of (FileObject f) = Some (path f)"

text \<open>\<^verbatim>\<open>typeof file === "string" ? file : file.path\<close>.\<close>

fun string_or_path :: "registry_file \<Rightarrow> string" where
  "string_or_path (FileString s) = s"
| "string_or_path (FileObject f) = path f"

text \<open>\<^verbatim>\<open>{...item, files: fs}\<close>.\<close>

definition with_files :: "('a, 'z) item_scheme \<Rightarrow> 'b list option \<Rightarrow> ('b, 'z) item_scheme" where
  "with_files item fs =
     \<lparr>name = name item, type = type item, description = description item,
      registryDependencies = registryDependencies item, files = fs,
      category = category item, subcategory = subcategory item, \<dots> = item.more item\<rparr>"

text \<open>The file records of the registry index and of a style document.\<close>

record index_file =
  index_path :: "string option"
  index_type :: string

record style_file =
  style_path :: string
  style_type :: string
  content :: string
  style_target :: string

subsection \<open>The file system and the console\<close>

datatype error = ZodError string | FsError string | TypeError string | Thrown string

text \<open>
  The state a run works on: the files on disk, the directories, the calls of
  \<^verbatim>\<open>fs.writeFile\<close> so far (path, data, encoding), and what went to the two console
  streams. Reading a file can fail, and the script handles that; writing, creating and
  deleting always succeed here.
\<close>

record world =
  disk :: "(string \<times> string) list"
  dirs :: "string list"
  writes :: "(string \<times> string \<times> string) list"
  stderr :: "error list"
  stdout :: "string list"

definition existsSync :: "string \<Rightarrow> world \<Rightarrow> bool" where
  "existsSync p w = (p \<in> set (dirs w) \<or> p \<in> fst ` set (disk w))"

definition mkdir :: "string \<Rightarrow> world \<Rightarrow> world" where
  "mkdir p w = w\<lparr>dirs := p # dirs w\<rparr>"

text \<open>\<^verbatim>\<open>rimraf.sync(p)\<close> removes \<open>p\<close> and everything below it.\<close>

definition below :: "string \<Rightarrow> string \<Rightarrow> bool" where
  "below p q = (q = p \<or> startsWith q (p @ ''/''))"

definition rimraf :: "string \<Rightarrow> world \<Rightarrow> world" where
  "rimraf p w =
     w\<lparr>disk := filter (\<lambda>(q, c). \<not> below p q) (disk w),
       dirs := filter (\<lambda>q. \<not> below p q) (dirs w)\<rparr>"

definition fs_readFile :: "string \<Rightarrow> world \<Rightarrow> error + string" where
  "fs_readFile p w =
     (case map_of (disk w) p of
        None \<Rightarrow> Inl (FsError p)
      | Some c \<Rightarrow> Inr c)"

definition fs_writeFile :: "string \<Rightarrow> string \<Rightarrow> string \<Rightarrow> world \<Rightarrow> world" where
  "fs_writeFile p d encoding w =
     w\<lparr>disk := (p, d) # filter (\<lambda>(q, c). q \<noteq> p) (disk w),
       writes := writes w @ [(p, d, encoding)]\<rparr>"

text \<open>
  \<^verbatim>\<open>async function writeFile(path, payload) {
    return fs.writeFile(path, `${payload}\r\n`, "utf8"); }\<close>
\<close>

definition CRLF :: string where
  "CRLF = [CHR 0x0D, CHR 0x0A]"

definition writeFile :: "string \<Rightarrow> string \<Rightarrow> world \<Rightarrow> world" where
  "writeFile p payload w = fs_writeFile p (payload @ CRLF) ''utf8'' w"

definition console_error :: "error \<Rightarrow> world \<Rightarrow> world" where
  "console_error e w = w\<lparr>stderr := stderr w @ [e]\<rparr>"

definition console_log :: "string \<Rightarrow> world \<Rightarrow> world" where
  "console_log s w = w\<lparr>stdout := stdout w @ [s]\<rparr>"

subsection \<open>Colour tables\<close>

text \<open>
  An entry of the colour table is a string, an array of shades or one colour object; a
  colour has an \<^verbatim>\<open>rgb\<close> and an \<^verbatim>\<open>hsl\<close> string, and a shade its numeric
  \<^verbatim>\<open>scale\<close>: the integer that the table writes, or \<open>None\<close> for a scale that is
  absent, not a number or a fraction (none of these equals a result of
  \<^verbatim>\<open>Number.parseInt\<close>). The colour index adds the two channel strings. A value of the colour
  mapping is a string, or something else that the script passes over.
\<close>

record color_token =
  scale :: "int option"
  rgb :: string
  hsl :: string

record color_channels = color_token +
  rgbChannel :: string
  hslChannel :: string

datatype 'a color_value = ColorString string | ColorArray "'a list" | ColorObject 'a

datatype mapping_value = MappingString string | MappingOther

type_synonym 'v obj = "(string \<times> 'v) list"

text \<open>The documents of the theme stage.\<close>

record base_doc =
  inlineColors :: "string obj obj"
  cssVars :: "string option obj obj"
  inlineColorsTemplate :: string
  cssVarsTemplate :: string

record theme_doc =
  theme_name :: string
  theme_label :: string
  theme_cssVars :: "string option obj obj"

subsection \<open>Collaborators\<close>

text \<open>
  \<open>'raw\<close> is an item before validation, \<open>'z\<close> the properties of a validated item that
  the script never reads, \<open>'d\<close> the data the entry schema returns, \<open>'c\<close> the properties
  of a colour that the script never reads, \<open>'t\<close> a theme of \<^verbatim>\<open>baseColors\<close>.
  \<open>crawlContent\<close> is the outcome of the crawl. \<open>registryEntrySchema_safeParse\<close> is
  \<^verbatim>\<open>registryEntrySchema.omit({category: true, subcategory: true}).safeParse\<close>. The two
  template fields are lodash's \<^verbatim>\<open>template\<close> applied to the script's texts
  \<^verbatim>\<open>BASE_STYLES_WITH_VARIABLES\<close> (with \<^verbatim>\<open>{colors}\<close>) and
  \<^verbatim>\<open>THEME_STYLES_WITH_VARIABLES\<close> (with the theme's \<^verbatim>\<open>cssVars\<close> and \<^verbatim>\<open>name\<close>);
  the \<open>stringify\<close> fields are \<^verbatim>\<open>JSON.stringify\<close> at the types the script uses it at.
  The reads of one item run concurrently: \<open>settles E n i\<close> is the time at which the
  read of the file at position \<open>i\<close> of the item named \<open>n\<close> settles.
\<close>

record ('raw, 'z, 'd, 'c, 't) collaborators =
  cwd :: string
  path_join :: "string list \<Rightarrow> string"
  path_resolve :: "string \<Rightarrow> string"
  registry :: "'raw list"
  crawlContent :: "error + 'raw list"
  registrySchema_safeParse :: "'raw list \<Rightarrow> error + 'z Registry"
  registryEntrySchema_safeParse :: "(style_file option, 'z) item_scheme \<Rightarrow> error + 'd"
  colors :: "'c color_token_scheme color_value obj"
  colorMapping :: "mapping_value obj obj"
  baseColors :: "'t list"
  template_BASE_STYLES_WITH_VARIABLES :: "string option obj obj \<Rightarrow> error + string"
  template_THEME_STYLES_WITH_VARIABLES :: "'t \<Rightarrow> error + string"
  stringify_strings :: "string list \<Rightarrow> string"
  stringify_index :: "(index_file, 'z) item_scheme list \<Rightarrow> string"
  stringify_style :: "'d \<Rightarrow> string"
  stringify_colors :: "'c color_channels_scheme color_value obj \<Rightarrow> string"
  stringify_base :: "base_doc \<Rightarrow> string"
  stringify_theme :: "theme_doc \<Rightarrow> string"
  settles :: "string \<Rightarrow> nat \<Rightarrow> nat"

text \<open>\<^verbatim>\<open>const REGISTRY_PATH = path.join(process.cwd(), "public/r")\<close>.\<close>

definition REGISTRY_PATH :: "('raw, 'z, 'd, 'c, 't) collaborators \<Rightarrow> string" where
  "REGISTRY_PATH E = path_join E [cwd E, ''public/r'']"

definition REGISTRY_INDEX_WHITELIST :: "string list" where
  "REGISTRY_INDEX_WHITELIST =
     [''registry:ui'', ''registry:block'', ''registry:example'', ''registry:hook'']"

subsection \<open>The index module\<close>

text \<open>
  The component path of an item: the conventional one from the second part of the type
  and the name, replaced by \<^verbatim>\<open>item.files[0].path\<close> when the array is not empty.
\<close>

definition componentPath :: "(registry_file, 'z) item_scheme \<Rightarrow> string" where
  "componentPath item =
     (let type' = nth_opt (split CHR '':'' (type item)) 1;
          conventional =
            ''@/components/content/inspira/'' @ interpolate type' @ ''/'' @ name item
      in case files item of
           None \<Rightarrow> conventional
         | Some fs \<Rightarrow>
             (case fs of
                [] \<Rightarrow> conventional
              | f # _ \<Rightarrow> ''@/components/content/inspira/'' @ interpolate (path_of f)))"

text \<open>\<^verbatim>\<open>JSON.stringify(item.registryDependencies)\<close> inside the template literal.\<close>

definition dependencies_text ::
  "('raw, 'z, 'd, 'c, 't) collaborators \<Rightarrow> string list option \<Rightarrow> string" where
  "dependencies_text E deps = interpolate (map_option (stringify_strings E) deps)"

fun index_file_text :: "('raw, 'z, 'd, 'c, 't) collaborators \<Rightarrow> registry_file \<Rightarrow> string" where
  "index_file_text E (FileString s) =
     ''\"'' @ path_resolve E (''components/content/inspira/'' @ s) @ ''\"''"
| "index_file_text E (FileObject f) =
     ''{\<newline>      path: \"'' @ (''components/content/inspira/'' @ path f) @
     ''\",\<newline>      type: \"'' @ file_type f @
     ''\",\<newline>      target: \"'' @ or_empty (target f) @
     ''\"\<newline>    }''"

definition index_entry ::
  "('raw, 'z, 'd, 'c, 't) collaborators \<Rightarrow> (registry_file, 'z) item_scheme \<Rightarrow> string" where
  "index_entry E item =
     ''\<newline>  \"'' @ name item @
     ''\": {\<newline>    name: \"'' @ name item @
     ''\",\<newline>    description: \"'' @ or_empty (description item) @
     ''\",\<newline>    type: \"'' @ type item @
     ''\",\<newline>    registryDependencies: '' @ dependencies_text E (registryDependencies item) @
     '',\<newline>    files: ['' @
        interpolate (map_option (\<lambda>fs. join '','' (map (index_file_text E) fs)) (files item)) @
     ''],\<newline>    component: () => import(\"'' @ componentPath item @
     ''\").then((m) => m.default),\<newline>    source: \"'' @ [] @
     ''\",\<newline>    category: \"'' @ or_empty (category item) @
     ''\",\<newline>    subcategory: \"'' @ or_empty (subcategory item) @
     ''\"\<newline>  },''"

text \<open>The loop over the registry: an item without \<^verbatim>\<open>files\<close> is passed over.\<close>

fun index_loop ::
  "('raw, 'z, 'd, 'c, 't) collaborators \<Rightarrow> string \<Rightarrow> 'z Registry \<Rightarrow> string" where
  "index_loop E index [] = index"
| "index_loop E index (item # rest) =
     (case map_option (map (\<lambda>f. ''components/content/inspira/'' @ string_or_path f))
             (files item) of
        None \<Rightarrow> index_loop E index rest
      | Some resolveFiles \<Rightarrow> index_loop E (index @ index_entry E item) rest)"

definition index_header :: string where
  "index_header =
     ''// @ts-nocheck\<newline>'' @
     ''// This file is autogenerated by scripts/build-registry.ts\<newline>'' @
     ''// Do not edit this file directly.\<newline>'' @
     ''\<newline>'' @
     ''export const Index: Record<string, any> = {''"

definition index_footer :: string where
  "index_footer = ''\<newline>}\<newline>''"

definition registry_index ::
  "('raw, 'z, 'd, 'c, 't) collaborators \<Rightarrow> 'z Registry \<Rightarrow> string" where
  "registry_index E registry' = index_loop E index_header registry' @ index_footer"

text \<open>
  The registry index: the items of type \<^verbatim>\<open>registry:ui\<close>, each file replaced by
  \<^verbatim>\<open>{ path: _file.path, type: item.type }\<close>.
\<close>

definition index_json_item ::
  "(registry_file, 'z) item_scheme \<Rightarrow> (index_file, 'z) item_scheme" where
  "index_json_item item =
     with_files item
       (map_option (map (\<lambda>f. \<lparr>index_path = path_of f, index_type = type item\<rparr>))
          (files item))"

definition index_json_items :: "'z Registry \<Rightarrow> (index_file, 'z) item_scheme list" where
  "index_json_items registry' =
     map index_json_item (filter (\<lambda>item. type item \<in> set [''registry:ui'']) registry')"

definition buildRegistry ::
  "('raw, 'z, 'd, 'c, 't) collaborators \<Rightarrow> 'z Registry \<Rightarrow> world \<Rightarrow> world" where
  "buildRegistry E registry' w =
     (let index = registry_index E registry';
          registryJson = stringify_index E (index_json_items registry');
          w1 = rimraf (path_join E [REGISTRY_PATH E, ''index.json'']) w;
          w2 = writeFile (path_join E [REGISTRY_PATH E, ''index.json'']) registryJson w1;
          w3 = rimraf (path_join E [cwd E, ''__registry__/index.ts'']) w2
      in writeFile (path_join E [cwd E, ''__registry__/index.ts'']) index w3)"

subsection \<open>The block index module\<close>

fun block_file_text :: "('raw, 'z, 'd, 'c, 't) collaborators \<Rightarrow> registry_file \<Rightarrow> string" where
  "block_file_text E (FileString s) =
     ''\"'' @ path_resolve E (''components/content/inspira/'' @ s) @ ''\"''"
| "block_file_text E (FileObject f) =
     ''{\<newline>      path: \"'' @ (''components/content/inspira/'' @ path f) @
     ''\",\<newline>      type: \"'' @ file_type f @
     ''\",\<newline>      target: \"'' @ or_empty (target f) @
     ''\",\<newline>      raw: () => import(\"@/'' @ (''components/content/inspira/'' @ path f) @
     ''?raw\").then((m) => m.default)\<newline>    }''"

definition block_entry ::
  "('raw, 'z, 'd, 'c, 't) collaborators \<Rightarrow> (registry_file, 'z) item_scheme \<Rightarrow> string" where
  "block_entry E item =
     ''\<newline>  \"'' @ name item @
     ''\": {\<newline>    name: \"'' @ name item @
     ''\",\<newline>    description: \"'' @ or_empty (description item) @
     ''\",\<newline>    type: \"'' @ type item @
     ''\",\<newline>    registryDependencies: '' @ dependencies_text E (registryDependencies item) @
     '',\<newline>    files: ['' @
        interpolate (map_option (\<lambda>fs. join '','' (map (block_file_text E) fs)) (files item)) @
     ''],\<newline>    component: () => import(\"'' @ componentPath item @
     ''\").then((m) => m.default),\<newline>    raw: () => import(\"'' @ componentPath item @
     ''?raw\").then((m) => m.default),\<newline>    source: \"'' @
     ''\",\<newline>    category: \"'' @ or_empty (category item) @
     ''\",\<newline>    subcategory: \"'' @ or_empty (subcategory item) @
     ''\"\<newline>  },''"

fun block_loop ::
  "('raw, 'z, 'd, 'c, 't) collaborators \<Rightarrow> string \<Rightarrow> 'z Registry \<Rightarrow> string" where
  "block_loop E index [] = index"
| "block_loop E index (item # rest) =
     (if type item \<noteq> ''registry:block'' then block_loop E index rest
      else (case map_option (map (\<lambda>f. ''components/content/inspira/'' @ string_or_path f))
                   (files item) of
              None \<Rightarrow> block_loop E index rest
            | Some resolveFiles \<Rightarrow> block_loop E (index @ block_entry E item) rest))"

definition block_header :: string where
  "block_header =
     ''// @ts-nocheck\<newline>'' @
     ''// This file is autogenerated by scripts/build-registry.ts\<newline>'' @
     ''// Do not edit this file directly.\<newline>'' @
     ''export const Index: Record<string, any> = {''"

definition block_index ::
  "('raw, 'z, 'd, 'c, 't) collaborators \<Rightarrow> 'z Registry \<Rightarrow> string" where
  "block_index E registry' = block_loop E block_header registry' @ index_footer"

definition buildBlockRegistry ::
  "('raw, 'z, 'd, 'c, 't) collaborators \<Rightarrow> 'z Registry \<Rightarrow> world \<Rightarrow> world" where
  "buildBlockRegistry E registry' w =
     (let index = block_index E registry';
          w1 = rimraf (path_join E [cwd E, ''__registry__/block.ts'']) w
      in writeFile (path_join E [cwd E, ''__registry__/block.ts'']) index w1)"

subsection \<open>One style document per item\<close>

text \<open>
  Reading one file of an item. For a bare string \<^verbatim>\<open>_file.path\<close> is \<^verbatim>\<open>undefined\<close>,
  and \<^verbatim>\<open>path.join\<close> throws on it inside the \<^verbatim>\<open>try\<close>. A hook is read below the
  working directory, any other file below the content directory.
\<close>

fun read_style_file ::
  "('raw, 'z, 'd, 'c, 't) collaborators \<Rightarrow> world \<Rightarrow> registry_file \<Rightarrow> error + style_file" where
  "read_style_file E w (FileString s) =
     Inl (TypeError ''The \"path\" argument must be of type string. Received undefined'')"
| "read_style_file E w (FileObject f) =
     (case fs_readFile
             (if file_type f = ''registry:hook'' then path_join E [cwd E, path f]
              else path_join E [cwd E, ''components'', ''content'', ''inspira'', path f]) w of
        Inl e \<Rightarrow> Inl e
      | Inr c \<Rightarrow>
          Inr \<lparr>style_path = path f, style_type = file_type f, content = c,
               style_target = or_empty (target f)\<rparr>)"

text \<open>
  \<^verbatim>\<open>Promise.all(item.files.map(...))\<close>: one slot per file, in the order of the files.
  A failed read leaves \<^verbatim>\<open>undefined\<close> in its slot and its error on the console.
\<close>

definition style_reads ::
  "('raw, 'z, 'd, 'c, 't) collaborators \<Rightarrow> world \<Rightarrow> (registry_file, 'z) item_scheme \<Rightarrow>
   (error + style_file) list option" where
  "style_reads E w item = map_option (map (read_style_file E w)) (files item)"

fun slot :: "error + style_file \<Rightarrow> style_file option" where
  "slot (Inl e) = None"
| "slot (Inr f) = Some f"

fun read_errors :: "(error + style_file) list \<Rightarrow> error list" where
  "read_errors [] = []"
| "read_errors (Inl e # rs) = e # read_errors rs"
| "read_errors (Inr f # rs) = read_errors rs"

text \<open>
  The order of the errors on the console. Each callback of \<^verbatim>\<open>map\<close> runs up to its
  first \<^verbatim>\<open>await\<close> at once: for a bare string \<^verbatim>\<open>path.join\<close> throws there and the
  error is logged while \<^verbatim>\<open>map\<close> still runs, in the order of the files. The read of a
  file object is awaited, and its error is logged when the read settles: after every
  synchronous one, in the order of the settling times (files that settle together, in
  the order of the files).
\<close>

fun thrown_at_once ::
  "('raw, 'z, 'd, 'c, 't) collaborators \<Rightarrow> world \<Rightarrow> registry_file list \<Rightarrow> error list" where
  "thrown_at_once E w [] = []"
| "thrown_at_once E w (FileString s # fs) =
     (case read_style_file E w (FileString s) of
        Inl e \<Rightarrow> e # thrown_at_once E w fs
      | Inr f \<Rightarrow> thrown_at_once E w fs)"
| "thrown_at_once E w (FileObject f # fs) = thrown_at_once E w fs"

fun rejected_later ::
  "('raw, 'z, 'd, 'c, 't) collaborators \<Rightarrow> world \<Rightarrow> nat \<Rightarrow> registry_file list \<Rightarrow>
   (nat \<times> error) list" where
  "rejected_later E w i [] = []"
| "rejected_later E w i (FileString s # fs) = rejected_later E w (Suc i) fs"
| "rejected_later E w i (FileObject f # fs) =
     (case read_style_file E w (FileObject f) of
        Inl e \<Rightarrow> (i, e) # rejected_later E w (Suc i) fs
      | Inr c \<Rightarrow> rejected_later E w (Suc i) fs)"

definition style_errors ::
  "('raw, 'z, 'd, 'c, 't) collaborators \<Rightarrow> world \<Rightarrow> (registry_file, 'z) item_scheme \<Rightarrow>
   error list" where
  "style_errors E w item =
     (case files item of
        None \<Rightarrow> []
      | Some fs \<Rightarrow>
          thrown_at_once E w fs @
          map snd (sort_key (\<lambda>(i, e). settles E (name item) i) (rejected_later E w 0 fs)))"

text \<open>The object handed to the entry schema: \<^verbatim>\<open>{...item, files}\<close>.\<close>

definition style_payload ::
  "('raw, 'z, 'd, 'c, 't) collaborators \<Rightarrow> world \<Rightarrow> (registry_file, 'z) item_scheme \<Rightarrow>
   (style_file option, 'z) item_scheme" where
  "style_payload E w item = with_files item (map_option (map slot) (style_reads E w item))"

definition buildStyles_item ::
  "('raw, 'z, 'd, 'c, 't) collaborators \<Rightarrow> string \<Rightarrow> world \<Rightarrow> (registry_file, 'z) item_scheme \<Rightarrow>
   world" where
  "buildStyles_item E targetPath w item =
     (if type item \<notin> set REGISTRY_INDEX_WHITELIST then w
      else
        let w1 = foldl (\<lambda>w' e. console_error e w') w (style_errors E w item)
        in case registryEntrySchema_safeParse E (style_payload E w item) of
             Inl e \<Rightarrow> w1
           | Inr d \<Rightarrow>
               writeFile (path_join E [targetPath, name item @ ''.json''])
                 (stringify_style E d) w1)"

definition buildStyles ::
  "('raw, 'z, 'd, 'c, 't) collaborators \<Rightarrow> 'z Registry \<Rightarrow> world \<Rightarrow> world" where
  "buildStyles E registry' w =
     (let targetPath = path_join E [REGISTRY_PATH E, ''styles''];
          w0 = (if \<not> existsSync targetPath w then mkdir targetPath w else w)
      in foldl (buildStyles_item E targetPath) w0 registry')"

subsection \<open>Colours and themes\<close>

text \<open>
  The flat colour index. \<^verbatim>\<open>Object.entries(colors)\<close> lists each key once; a string is
  copied, every shade of an array and a single colour object get the two channels. (No
  key of a table is \<^verbatim>\<open>__proto__\<close>, which an object literal does not define as a
  property.)
\<close>

definition add_channels :: "'c color_token_scheme \<Rightarrow> 'c color_channels_scheme" where
  "add_channels item =
     \<lparr>scale = scale item, rgb = rgb item, hsl = hsl item,
      rgbChannel = rgbChannel_of (rgb item), hslChannel = hslChannel_of (hsl item),
      \<dots> = color_token.more item\<rparr>"

fun colorsData_value ::
  "'c color_token_scheme color_value \<Rightarrow> 'c color_channels_scheme color_value" where
  "colorsData_value (ColorString s) = ColorString s"
| "colorsData_value (ColorArray items) = ColorArray (map add_channels items)"
| "colorsData_value (ColorObject v) = ColorObject (add_channels v)"

definition colorsData_of ::
  "'c color_token_scheme color_value obj \<Rightarrow> 'c color_channels_scheme color_value obj" where
  "colorsData_of cs = map (\<lambda>(color, v). (color, colorsData_value v)) cs"

text \<open>\<^verbatim>\<open>o[k] = v\<close> on an object whose keys keep their order.\<close>

fun obj_set :: "string \<Rightarrow> 'v \<Rightarrow> 'v obj \<Rightarrow> 'v obj" where
  "obj_set k v [] = [(k, v)]"
| "obj_set k v ((k', v') # rest) =
     (if k' = k then (k, v) # rest else (k', v') # obj_set k v rest)"

text \<open>
  \<^verbatim>\<open>colorsData[k]\<close>: the index is a plain object, so a name that is not a key of its
  own is looked up in \<^verbatim>\<open>Object.prototype\<close>, whose properties are functions (and, for
  \<^verbatim>\<open>__proto__\<close>, the prototype itself): truthy values with neither \<^verbatim>\<open>hslChannel\<close> nor
  \<^verbatim>\<open>find\<close>.
\<close>

definition Object_prototype :: "string list" where
  "Object_prototype =
     [''constructor'', ''__defineGetter__'', ''__defineSetter__'', ''hasOwnProperty'',
      ''__lookupGetter__'', ''__lookupSetter__'', ''isPrototypeOf'', ''propertyIsEnumerable'',
      ''toString'', ''valueOf'', ''__proto__'', ''toLocaleString'']"

datatype 'a property = Undefined | Inherited | Own 'a

definition get_property :: "'a obj \<Rightarrow> string \<Rightarrow> 'a property" where
  "get_property object k =
     (case map_of object k of
        Some v \<Rightarrow> Own v
      | None \<Rightarrow> if k \<in> set Object_prototype then Inherited else Undefined)"

text \<open>
  Looking a resolved colour up:
  \<^verbatim>\<open>const [resolvedBase, scale] = resolvedColor.split("-");
  const color = scale
    ? colorsData[resolvedBase].find((item) => item.scale === Number.parseInt(scale))
    : colorsData[resolvedBase];\<close>
  The result says whether \<^verbatim>\<open>color\<close> is truthy and, if so, what \<^verbatim>\<open>color.hslChannel\<close>
  is (\<open>None\<close> is \<^verbatim>\<open>undefined\<close>: a string, an array and an inherited property have no
  such property). With a scale, anything but an array under \<^verbatim>\<open>resolvedBase\<close> has no
  \<^verbatim>\<open>find\<close> to call.
\<close>

datatype color_lookup = NoColor | ColorWith "string option"

definition scale_matches :: "string \<Rightarrow> 'c color_channels_scheme \<Rightarrow> bool" where
  "scale_matches s item =
     (case (scale item, parseInt s) of
        (Some a, Some b) \<Rightarrow> to_number a = b
      | _ \<Rightarrow> False)"

definition find_color ::
  "'c color_channels_scheme color_value obj \<Rightarrow> string \<Rightarrow> error + color_lookup" where
  "find_color colorsData resolvedColor =
     (let parts = split CHR ''-'' resolvedColor;
          resolvedBase = (case parts of [] \<Rightarrow> [] | x # _ \<Rightarrow> x);
          scale' = nth_opt parts 1
      in if (case scale' of None \<Rightarrow> False | Some s \<Rightarrow> s \<noteq> [])
         then (case get_property colorsData resolvedBase of
                 Undefined \<Rightarrow> Inl (TypeError ''Cannot read properties of undefined (reading find)'')
               | Inherited \<Rightarrow> Inl (TypeError ''colorsData[resolvedBase].find is not a function'')
               | Own (ColorString v) \<Rightarrow> Inl (TypeError ''colorsData[resolvedBase].find is not a function'')
               | Own (ColorObject c) \<Rightarrow> Inl (TypeError ''colorsData[resolvedBase].find is not a function'')
               | Own (ColorArray items) \<Rightarrow>
                   Inr (case find (scale_matches (or_empty scale')) items of
                          None \<Rightarrow> NoColor
                        | Some item \<Rightarrow> ColorWith (Some (hslChannel item))))
         else (case get_property colorsData resolvedBase of
                 Undefined \<Rightarrow> Inr NoColor
               | Inherited \<Rightarrow> Inr (ColorWith None)
               | Own (ColorString v) \<Rightarrow> Inr (if v = [] then NoColor else ColorWith None)
               | Own (ColorArray items) \<Rightarrow> Inr (ColorWith None)
               | Own (ColorObject c) \<Rightarrow> Inr (ColorWith (Some (hslChannel c)))))"

text \<open>
  The base-stylesheet pass over the entries of one mode: a \<^verbatim>\<open>chart-\<close> key keeps the
  mapping's value; any other key is resolved, and the variable is set only when a colour
  was found.
\<close>

fun base_entries ::
  "'c color_channels_scheme color_value obj \<Rightarrow> string \<Rightarrow> mapping_value obj \<Rightarrow>
   string obj \<times> string option obj \<Rightarrow> error + string obj \<times> string option obj" where
  "base_entries colorsData baseColor [] acc = Inr acc"
| "base_entries colorsData baseColor ((key, MappingOther) # rest) acc =
     base_entries colorsData baseColor rest acc"
| "base_entries colorsData baseColor ((key, MappingString v) # rest) (inline, vars) =
     (if startsWith key ''chart-''
      then base_entries colorsData baseColor rest (inline, obj_set key (Some v) vars)
      else
        let resolvedColor = replace_base baseColor v;
            inline' = obj_set key resolvedColor inline
        in case find_color colorsData resolvedColor of
             Inl e \<Rightarrow> Inl e
           | Inr NoColor \<Rightarrow> base_entries colorsData baseColor rest (inline', vars)
           | Inr (ColorWith h) \<Rightarrow>
               base_entries colorsData baseColor rest (inline', obj_set key h vars))"

fun base_modes ::
  "'c color_channels_scheme color_value obj \<Rightarrow> string \<Rightarrow> mapping_value obj obj \<Rightarrow>
   string obj obj \<times> string option obj obj \<Rightarrow> error + string obj obj \<times> string option obj obj" where
  "base_modes colorsData baseColor [] acc = Inr acc"
| "base_modes colorsData baseColor ((mode, values) # rest) (inline, vars) =
     (case base_entries colorsData baseColor values ([], []) of
        Inl e \<Rightarrow> Inl e
      | Inr (i, v) \<Rightarrow>
          base_modes colorsData baseColor rest (obj_set mode i inline, obj_set mode v vars))"

text \<open>
  The per-theme pass: every string value is resolved, the variable first holds the
  resolved colour name and then, when a colour was found, its channel.
\<close>

fun theme_entries ::
  "'c color_channels_scheme color_value obj \<Rightarrow> string \<Rightarrow> mapping_value obj \<Rightarrow>
   string option obj \<Rightarrow> error + string option obj" where
  "theme_entries colorsData baseColor [] vars = Inr vars"
| "theme_entries colorsData baseColor ((key, MappingOther) # rest) vars =
     theme_entries colorsData baseColor rest vars"
| "theme_entries colorsData baseColor ((key, MappingString v) # rest) vars =
     (let resolvedColor = replace_base baseColor v;
          vars' = obj_set key (Some resolvedColor) vars
      in case find_color colorsData resolvedColor of
           Inl e \<Rightarrow> Inl e
         | Inr NoColor \<Rightarrow> theme_entries colorsData baseColor rest vars'
         | Inr (ColorWith h) \<Rightarrow>
             theme_entries colorsData baseColor rest (obj_set key h vars'))"

fun theme_modes ::
  "'c color_channels_scheme color_value obj \<Rightarrow> string \<Rightarrow> mapping_value obj obj \<Rightarrow>
   string option obj obj \<Rightarrow> error + string option obj obj" where
  "theme_modes colorsData baseColor [] vars = Inr vars"
| "theme_modes colorsData baseColor ((mode, values) # rest) vars =
     (case theme_entries colorsData baseColor values [] of
        Inl e \<Rightarrow> Inl e
      | Inr v \<Rightarrow> theme_modes colorsData baseColor rest (obj_set mode v vars))"


text \<open>\<^verbatim>\<open>baseColor.charAt(0).toUpperCase() + baseColor.slice(1)\<close>, on ASCII letters.\<close>

definition toUpperCase :: "char \<Rightarrow> char" where
  "toUpperCase c =
     (let n = of_char c :: nat in if 97 \<le> n \<and> n \<le> 122 then char_of (n - 32) else c)"

fun capitalize :: "string \<Rightarrow> string" where
  "capitalize [] = []"
| "capitalize (c # cs) = toUpperCase c # cs"

definition BASE_STYLES :: string where
  "BASE_STYLES =
     ''@tailwind base;\<newline>'' @
     ''@tailwind components;\<newline>'' @
     ''@tailwind utilities;\<newline>'' @
     ''  ''"

definition base_families :: "string list" where
  "base_families = [''slate'', ''gray'', ''zinc'', ''neutral'', ''stone'']"

text \<open>
  The document of one family in the base-stylesheet pass. \<^verbatim>\<open>BASE_STYLES\<close> has nothing
  to interpolate, so its template renders to the text itself.
\<close>

definition base_document ::
  "('raw, 'z, 'd, 'c, 't) collaborators \<Rightarrow> 'c color_channels_scheme color_value obj \<Rightarrow> string \<Rightarrow>
   error + base_doc" where
  "base_document E colorsData baseColor =
     (case base_modes colorsData baseColor (colorMapping E) ([], []) of
        Inl e \<Rightarrow> Inl e
      | Inr (inline, vars) \<Rightarrow>
          (case template_BASE_STYLES_WITH_VARIABLES E vars of
             Inl e \<Rightarrow> Inl e
           | Inr t \<Rightarrow>
               Inr \<lparr>inlineColors = inline, cssVars = vars,
                    inlineColorsTemplate = BASE_STYLES, cssVarsTemplate = t\<rparr>))"

definition theme_document ::
  "('raw, 'z, 'd, 'c, 't) collaborators \<Rightarrow> 'c color_channels_scheme color_value obj \<Rightarrow> string \<Rightarrow>
   error + theme_doc" where
  "theme_document E colorsData baseColor =
     (case theme_modes colorsData baseColor (colorMapping E) [] of
        Inl e \<Rightarrow> Inl e
      | Inr vars \<Rightarrow>
          Inr \<lparr>theme_name = baseColor, theme_label = capitalize baseColor,
               theme_cssVars = vars\<rparr>)"

text \<open>The theme stylesheet: one rendered block per theme of \<^verbatim>\<open>baseColors\<close>.\<close>

fun themeCSS ::
  "('raw, 'z, 'd, 'c, 't) collaborators \<Rightarrow> 't list \<Rightarrow> error + string list" where
  "themeCSS E [] = Inr []"
| "themeCSS E (theme # rest) =
     (case template_THEME_STYLES_WITH_VARIABLES E theme of
        Inl e \<Rightarrow> Inl e
      | Inr css \<Rightarrow>
          (case themeCSS E rest of
             Inl e \<Rightarrow> Inl e
           | Inr others \<Rightarrow> Inr (css # others)))"

text \<open>
  A stage that can throw returns the error, if any, and the state it had reached. The
  inner loop writes \<^verbatim>\<open>themes/<family>.json\<close>; it runs once in every round of the
  outer loop, which writes \<^verbatim>\<open>colors/<family>.json\<close> and the stylesheet.
\<close>

fun themes_loop ::
  "('raw, 'z, 'd, 'c, 't) collaborators \<Rightarrow> 'c color_channels_scheme color_value obj \<Rightarrow>
   string list \<Rightarrow> world \<Rightarrow> error option \<times> world" where
  "themes_loop E colorsData [] w = (None, w)"
| "themes_loop E colorsData (baseColor # rest) w =
     (case theme_document E colorsData baseColor of
        Inl e \<Rightarrow> (Some e, w)
      | Inr payload \<Rightarrow>
          let targetPath = path_join E [REGISTRY_PATH E, ''themes''];
              w1 = (if \<not> existsSync targetPath w then mkdir targetPath w else w);
              w2 = writeFile (path_join E [targetPath, theme_name payload @ ''.json''])
                     (stringify_theme E payload) w1
          in themes_loop E colorsData rest w2)"

fun colors_loop ::
  "('raw, 'z, 'd, 'c, 't) collaborators \<Rightarrow> 'c color_channels_scheme color_value obj \<Rightarrow>
   string list \<Rightarrow> world \<Rightarrow> error option \<times> world" where
  "colors_loop E colorsData [] w = (None, w)"
| "colors_loop E colorsData (baseColor # rest) w =
     (case base_document E colorsData baseColor of
        Inl e \<Rightarrow> (Some e, w)
      | Inr base \<Rightarrow>
          let w1 = writeFile
                     (path_join E [REGISTRY_PATH E, ''colors/'' @ baseColor @ ''.json''])
                     (stringify_base E base) w
          in case themeCSS E (baseColors E) of
               Inl e \<Rightarrow> (Some e, w1)
             | Inr css \<Rightarrow>
                 let w2 = writeFile (path_join E [REGISTRY_PATH E, ''themes.css''])
                            (join ''\<newline>'' css) w1;
                     w3 = rimraf (path_join E [REGISTRY_PATH E, ''themes'']) w2
                 in case themes_loop E colorsData base_families w3 of
                      (Some e, w4) \<Rightarrow> (Some e, w4)
                    | (None, w4) \<Rightarrow> colors_loop E colorsData rest w4)"

definition buildThemes ::
  "('raw, 'z, 'd, 'c, 't) collaborators \<Rightarrow> world \<Rightarrow> error option \<times> world" where
  "buildThemes E w =
     (let colorsTargetPath = path_join E [REGISTRY_PATH E, ''colors''];
          w1 = rimraf colorsTargetPath w;
          w2 = (if \<not> existsSync colorsTargetPath w1 then mkdir colorsTargetPath w1 else w1);
          colorsData = colorsData_of (colors E);
          w3 = writeFile (path_join E [colorsTargetPath, ''index.json''])
                 (stringify_colors E colorsData) w2
      in colors_loop E colorsData base_families w3)"

subsection \<open>The run\<close>

text \<open>
  The top-level \<^verbatim>\<open>try\<close> block: the state the run ends in, and the exit code of the
  process (0 when the script runs to its end).
\<close>

definition Done :: string where
  "Done = [CHR 0xE2, CHR 0x9C, CHR 0x85] @ '' Done!''"

definition main :: "('raw, 'z, 'd, 'c, 't) collaborators \<Rightarrow> world \<Rightarrow> world \<times> int" where
  "main E w =
     (let w1 = (if \<not> existsSync (path_join E [cwd E, ''__registry__'']) w
                then mkdir (path_join E [cwd E, ''__registry__'']) w else w);
          w2 = (if \<not> existsSync (REGISTRY_PATH E) w1 then mkdir (REGISTRY_PATH E) w1 else w1)
      in case crawlContent E of
           Inl e \<Rightarrow> (console_error e w2, 1)
         | Inr content' \<Rightarrow>
             (case registrySchema_safeParse E (registry E @ content') of
                Inl e \<Rightarrow> (console_error e w2, 1)
              | Inr data \<Rightarrow>
                  let w3 = buildRegistry E data w2;
                      w4 = buildBlockRegistry E data w3;
                      w5 = buildStyles E data w4
                  in case buildThemes E w5 of
                       (Some e, w6) \<Rightarrow> (console_error e w6, 1)
                     | (None, w6) \<Rightarrow> (console_log Done w6, 0)))"

subsection \<open>The state in which a run reaches an item\<close>

text \<open>
  \<open>styles_begin E data w\<close> is the state in which a run from \<open>w\<close>, with the validated
  list \<open>data\<close>, enters the loop of \<^verbatim>\<open>buildStyles\<close>; \<open>reached E data before w\<close> is the
  state of that run after the loop has handled the items \<open>before\<close>.
\<close>

definition styles_begin ::
  "('raw, 'z, 'd, 'c, 't) collaborators \<Rightarrow> 'z Registry \<Rightarrow> world \<Rightarrow> world" where
  "styles_begin E data w =
     (let w1 = (if \<not> existsSync (path_join E [cwd E, ''__registry__'']) w
                then mkdir (path_join E [cwd E, ''__registry__'']) w else w);
          w2 = (if \<not> existsSync (REGISTRY_PATH E) w1 then mkdir (REGISTRY_PATH E) w1 else w1);
          w3 = buildRegistry E data w2;
          w4 = buildBlockRegistry E data w3;
          targetPath = path_join E [REGISTRY_PATH E, ''styles'']
      in if \<not> existsSync targetPath w4 then mkdir targetPath w4 else w4)"

definition reached ::
  "('raw, 'z, 'd, 'c, 't) collaborators \<Rightarrow> 'z Registry \<Rightarrow> 'z Registry \<Rightarrow> world \<Rightarrow> world" where
  "reached E data before w =
     foldl (buildStyles_item E (path_join E [REGISTRY_PATH E, ''styles''])) (styles_begin E data w)
       before"

subsection \<open>What a run wrote\<close>

text \<open>
  A call of \<^verbatim>\<open>fs.writeFile\<close> as \<^verbatim>\<open>writeFile\<close> makes it: the data ends with a
  carriage return and a line feed, and the encoding is UTF-8. \<open>wrote_crlf w w'\<close> says
  that the log of \<open>w'\<close> is the log of \<open>w\<close> followed by such calls only.
\<close>

definition crlf_utf8 :: "string \<times> string \<times> string \<Rightarrow> bool" where
  "crlf_utf8 wr =
     (case wr of (p, d, encoding) \<Rightarrow>
        encoding = ''utf8'' \<and> 2 \<le> length d \<and> drop (length d - 2) d = CRLF)"

definition wrote_crlf :: "world \<Rightarrow> world \<Rightarrow> bool" where
  "wrote_crlf w w' =
     (take (length (writes w)) (writes w') = writes w
      \<and> list_all crlf_utf8 (drop (length (writes w)) (writes w')))"

text \<open>\<open>contains s p\<close>: the text \<open>p\<close> occurs in \<open>s\<close>.\<close>

fun contains :: "string \<Rightarrow> string \<Rightarrow> bool" where
  "contains [] p = (p = [])"
| "contains (c # cs) p = (strip_prefix p (c # cs) \<noteq> None \<or> contains cs p)"

subsection \<open>A small registry\<close>

text \<open>
  Concrete collaborators on which the model runs. The schemas are as the data model
  of the registry describes them: an item has a name, and a file reference is a path or
  a record of path, type and target. So items before validation may lack their name,
  and the registry schema rejects a list with such an item; the entry schema rejects a
  payload with a slot of \<^verbatim>\<open>files\<close> that holds no file, and returns an accepted
  payload as it is. Paths are joined with a slash; documents are shown in a compact
  notation, \<^verbatim>\<open>undefined\<close> in an array as \<^verbatim>\<open>null\<close>. The stylesheet template
  reads \<^verbatim>\<open>colors.light\<close> and \<^verbatim>\<open>colors.dark\<close>, and throws when a mode is missing.
  The reads of an item settle in the order of its files.
\<close>

record raw_item =
  raw_name :: "string option"
  raw_type :: string
  raw_files :: "registry_file list option"

definition demo_item :: "raw_item \<Rightarrow> registry_file item" where
  "demo_item r =
     \<lparr>name = or_empty (raw_name r), type = raw_type r, description = None,
      registryDependencies = None, files = raw_files r, category = None, subcategory = None\<rparr>"

definition demo_registrySchema :: "raw_item list \<Rightarrow> error + unit Registry" where
  "demo_registrySchema rs =
     (if list_ex (\<lambda>r. raw_name r = None) rs then Inl (ZodError ''name: Required'')
      else Inr (map demo_item rs))"

definition demo_entrySchema :: "style_file option item \<Rightarrow> error + style_file option item" where
  "demo_entrySchema payload =
     (case files payload of
        None \<Rightarrow> Inr payload
      | Some fs \<Rightarrow> if list_ex (\<lambda>f. f = None) fs then Inl (ZodError ''files: Required'') else Inr payload)"

definition quote :: "string \<Rightarrow> string" where
  "quote s = ''\"'' @ s @ ''\"''"

definition show_obj :: "('v \<Rightarrow> string) \<Rightarrow> 'v obj \<Rightarrow> string" where
  "show_obj f kvs = ''{'' @ join '','' (map (\<lambda>(k, v). quote k @ '':'' @ f v) kvs) @ ''}''"

definition show_array :: "('v \<Rightarrow> string) \<Rightarrow> 'v list \<Rightarrow> string" where
  "show_array f xs = ''['' @ join '','' (map f xs) @ '']''"

definition show_option :: "('v \<Rightarrow> string) \<Rightarrow> 'v option \<Rightarrow> string" where
  "show_option f v = (case v of None \<Rightarrow> ''null'' | Some x \<Rightarrow> f x)"

definition show_index_file :: "index_file \<Rightarrow> string" where
  "show_index_file f =
     show_obj id [(''path'', show_option quote (index_path f)), (''type'', quote (index_type f))]"

definition show_style_file :: "style_file \<Rightarrow> string" where
  "show_style_file f =
     show_obj quote [(''path'', style_path f), (''type'', style_type f),
       (''content'', content f), (''target'', style_target f)]"

definition show_item :: "('f \<Rightarrow> string) \<Rightarrow> 'f item \<Rightarrow> string" where
  "show_item f i =
     show_obj id [(''name'', quote (name i)), (''type'', quote (type i)),
       (''files'', show_option (show_array f) (files i))]"

definition show_color :: "color_channels color_value \<Rightarrow> string" where
  "show_color v =
     (case v of
        ColorString s \<Rightarrow> quote s
      | ColorArray cs \<Rightarrow> show_array (\<lambda>c. quote (hslChannel c)) cs
      | ColorObject c \<Rightarrow> quote (hslChannel c))"

definition demo :: "(raw_item, unit, style_file option item, unit, string) collaborators" where
  "demo =
     \<lparr>cwd = ''/repo'',
      path_join = join ''/'',
      path_resolve = (\<lambda>p. ''/repo/'' @ p),
      registry =
        [\<lparr>raw_name = Some ''button'', raw_type = ''registry:ui'',
          raw_files = Some [FileObject \<lparr>path = ''ui/button/Button.vue'',
            file_type = ''registry:ui'', target = None\<rparr>]\<rparr>],
      crawlContent =
        Inr [\<lparr>raw_name = Some ''hero'', raw_type = ''registry:block'', raw_files = Some []\<rparr>,
             \<lparr>raw_name = Some ''notes'', raw_type = ''registry:example'', raw_files = None\<rparr>],
      registrySchema_safeParse = demo_registrySchema,
      registryEntrySchema_safeParse = demo_entrySchema,
      colors =
        [(''inherit'', ColorString ''inherit''),
         (''white'', ColorObject \<lparr>scale = None, rgb = ''rgb(255,255,255)'', hsl = ''hsl(0,0%,100%)''\<rparr>),
         (''slate'', ColorArray
            [\<lparr>scale = Some 50, rgb = ''rgb(248,250,252)'', hsl = ''hsl(210,40%,98%)''\<rparr>,
             \<lparr>scale = Some 950, rgb = ''rgb(2,6,23)'', hsl = ''hsl(228.8,84%,4.9%)''\<rparr>]),
         (''gray'', ColorArray
            [\<lparr>scale = Some 950, rgb = ''rgb(3,7,18)'', hsl = ''hsl(224,71.4%,4.1%)''\<rparr>]),
         (''zinc'', ColorArray
            [\<lparr>scale = Some 950, rgb = ''rgb(9,9,11)'', hsl = ''hsl(240,10%,3.9%)''\<rparr>]),
         (''neutral'', ColorArray
            [\<lparr>scale = Some 950, rgb = ''rgb(10,10,10)'', hsl = ''hsl(0,0%,3.9%)''\<rparr>]),
         (''stone'', ColorArray
            [\<lparr>scale = Some 950, rgb = ''rgb(12,10,9)'', hsl = ''hsl(20,14.3%,4.1%)''\<rparr>])],
      colorMapping =
        [(''light'', [(''background'', MappingString ''white''),
                      (''foreground'', MappingString ''{{base}}-950''),
                      (''chart-1'', MappingString ''12 76% 61%'')]),
         (''dark'', [(''background'', MappingString ''{{base}}-950''),
                     (''foreground'', MappingString ''white'')])],
      baseColors = [''zinc'', ''rose''],
      template_BASE_STYLES_WITH_VARIABLES =
        (\<lambda>vars. if map_of vars ''light'' = None \<or> map_of vars ''dark'' = None
                then Inl (TypeError ''Cannot read properties of undefined'')
                else Inr (show_obj (show_obj (show_option quote)) vars)),
      template_THEME_STYLES_WITH_VARIABLES = (\<lambda>theme. Inr (''.theme-'' @ theme)),
      stringify_strings = show_array quote,
      stringify_index = show_array (show_item show_index_file),
      stringify_style = show_item (show_option show_style_file),
      stringify_colors = show_obj show_color,
      stringify_base = (\<lambda>base. show_obj (show_obj (show_option quote)) (cssVars base)),
      stringify_theme = (\<lambda>t. show_obj (show_obj (show_option quote)) (theme_cssVars t)),
      settles = (\<lambda>n i. i)\<rparr>"

definition demo_world :: world where
  "demo_world =
     \<lparr>disk = [(''/repo/components/content/inspira/ui/button/Button.vue'', ''<template />'')],
      dirs = [], writes = [], stderr = [], stdout = []\<rparr>"

text \<open>
  The item \<^verbatim>\<open>card\<close> names one file that is on the disk and one that is not; in
  \<open>demo_with_card\<close> the crawl finds it.
\<close>

definition raw_card :: raw_item where
  "raw_card =
     \<lparr>raw_name = Some ''card'', raw_type = ''registry:ui'',
      raw_files = Some [FileObject \<lparr>path = ''ui/button/Button.vue'',
                          file_type = ''registry:ui'', target = None\<rparr>,
                        FileObject \<lparr>path = ''ui/card/Card.vue'',
                          file_type = ''registry:ui'', target = None\<rparr>]\<rparr>"

definition demo_with_card ::
  "(raw_item, unit, style_file option item, unit, string) collaborators" where
  "demo_with_card = demo\<lparr>crawlContent := Inr [raw_card]\<rparr>"

section \<open>Properties\<close>

subsection \<open>Channel strings\<close>

lemma many1_run:
  assumes "xs \<noteq> []" and "\<forall>c \<in> set xs. P c" and "\<not> P d"
  shows "many1 P (xs @ d # rest) = Some (xs, d # rest)"
proof -
  have "takeWhile P (xs @ d # rest) = xs"
    using assms by (simp add: takeWhile_append2)
  moreover have "dropWhile P (xs @ d # rest) = d # rest"
    using assms by (simp add: dropWhile_append2)
  ultimately show ?thesis
    using assms(1) by (simp add: many1_def)
qed

lemma rgb_groups_match:
  assumes "r \<noteq> []" "g \<noteq> []" "b \<noteq> []"
    and "\<forall>c \<in> set r. is_digit c" "\<forall>c \<in> set g. is_digit c" "\<forall>c \<in> set b. is_digit c"
  shows "rgb_groups (''rgb('' @ r @ '','' @ g @ '','' @ b @ '')'') = Some (r, g, b)"
proof -
  have nd: "\<not> is_digit CHR '',''" "\<not> is_digit CHR '')''"
    by (simp_all add: is_digit_def)
  show ?thesis
    using assms nd by (simp add: rgb_groups_def many1_run)
qed

lemma hsl_groups_match:
  assumes "h \<noteq> []" "s \<noteq> []" "l \<noteq> []"
    and "\<forall>c \<in> set h. is_digit_or_dot c" "\<forall>c \<in> set s. is_digit_or_dot c"
        "\<forall>c \<in> set l. is_digit_or_dot c"
  shows "hsl_groups (''hsl('' @ h @ '','' @ s @ ''%,'' @ l @ ''%)'') = Some (h, s @ ''%'', l @ ''%'')"
proof -
  have nd: "\<not> is_digit_or_dot CHR '',''" "\<not> is_digit_or_dot CHR ''%''"
    by (simp_all add: is_digit_or_dot_def)
  show ?thesis
    using assms nd by (simp add: hsl_groups_def many1_run)
qed

text \<open>
  C6, as the script has it: in the flat colour index, a colour whose \<^verbatim>\<open>rgb\<close> string is
  \<^verbatim>\<open>rgb(r,g,b)\<close> with three runs of digits gets the channel \<^verbatim>\<open>r g b\<close>, and a colour
  whose \<^verbatim>\<open>hsl\<close> string is \<^verbatim>\<open>hsl(h,s%,l%)\<close> with three runs of digits and dots gets
  the channel \<^verbatim>\<open>h s% l%\<close>: three tokens separated by one space, the two percentages
  keeping their percent sign.
\<close>

theorem channel_strings:
  assumes "r \<noteq> []" "g \<noteq> []" "b \<noteq> []"
    and "\<forall>c \<in> set (r @ g @ b). is_digit c"
    and "h \<noteq> []" "s \<noteq> []" "l \<noteq> []"
    and "\<forall>c \<in> set (h @ s @ l). is_digit_or_dot c"
    and "rgb item = ''rgb('' @ r @ '','' @ g @ '','' @ b @ '')''"
    and "hsl item = ''hsl('' @ h @ '','' @ s @ ''%,'' @ l @ ''%)''"
  shows "rgbChannel (add_channels item) = r @ '' '' @ g @ '' '' @ b
       \<and> hslChannel (add_channels item) = h @ '' '' @ s @ ''% '' @ l @ ''%''"
proof -
  have "rgb_groups (rgb item) = Some (r, g, b)"
    unfolding assms(9) using assms(1-4) by (intro rgb_groups_match) auto
  moreover have "hsl_groups (hsl item) = Some (h, s @ ''%'', l @ ''%'')"
    unfolding assms(10) using assms(5-8) by (intro hsl_groups_match) auto
  ultimately show ?thesis
    by (simp add: add_channels_def rgbChannel_of_def hslChannel_of_def)
qed

text \<open>The two strings of C6: \<^verbatim>\<open>rgb(10,20,30)\<close> and \<^verbatim>\<open>hsl(210,50%,40%)\<close>.\<close>

theorem channel_strings_witness:
  "rgbChannel (add_channels \<lparr>scale = None, rgb = ''rgb(10,20,30)'', hsl = ''hsl(210,50%,40%)''\<rparr>)
     = ''10 20 30''
   \<and> hslChannel (add_channels \<lparr>scale = None, rgb = ''rgb(10,20,30)'', hsl = ''hsl(210,50%,40%)''\<rparr>)
     = ''210 50% 40%''"
  using channel_strings [of "''10''" "''20''" "''30''" "''210''" "''50''" "''40''"
      "\<lparr>scale = None, rgb = ''rgb(10,20,30)'', hsl = ''hsl(210,50%,40%)''\<rparr>"]
  by (simp add: is_digit_def is_digit_or_dot_def)

text \<open>
  C6 as stated drops the percent sign from the two trailing components. The channel of
  \<^verbatim>\<open>hsl(210,50%,40%)\<close> is \<^verbatim>\<open>210 50% 40%\<close>, not \<^verbatim>\<open>210 50 40\<close>: its second and its
  third token end with the percent sign.
\<close>

theorem hsl_percent_counterexample:
  "hslChannel (add_channels \<lparr>scale = None, rgb = ''rgb(10,20,30)'', hsl = ''hsl(210,50%,40%)''\<rparr>)
     \<noteq> ''210 50 40''
   \<and> map last (split CHR '' ''
        (hslChannel (add_channels \<lparr>scale = None, rgb = ''rgb(10,20,30)'', hsl = ''hsl(210,50%,40%)''\<rparr>)))
     = ''0%%''"
  by (simp add: add_channels_def hslChannel_of_def hsl_groups_def many1_def is_digit_or_dot_def)

subsection \<open>The log of writes\<close>

lemma writes_mkdir [simp]: "writes (mkdir p w) = writes w"
  by (simp add: mkdir_def)

lemma writes_rimraf [simp]: "writes (rimraf p w) = writes w"
  by (simp add: rimraf_def)

lemma writes_console_error [simp]: "writes (console_error e w) = writes w"
  by (simp add: console_error_def)

lemma writes_console_log [simp]: "writes (console_log s w) = writes w"
  by (simp add: console_log_def)

lemma writes_writeFile [simp]:
  "writes (writeFile p s w) = writes w @ [(p, s @ CRLF, ''utf8'')]"
  by (simp add: writeFile_def fs_writeFile_def)

lemma writes_log_errors [simp]:
  "writes (foldl (\<lambda>w' e. console_error e w') w es) = writes w"
  by (induction es arbitrary: w) simp_all

lemma wrote_crlf_iff:
  "wrote_crlf w w' \<longleftrightarrow> (\<exists>new. writes w' = writes w @ new \<and> list_all crlf_utf8 new)"
proof
  assume "wrote_crlf w w'"
  then have "writes w' = writes w @ drop (length (writes w)) (writes w')"
    "list_all crlf_utf8 (drop (length (writes w)) (writes w'))"
    unfolding wrote_crlf_def by (metis append_take_drop_id, simp)
  then show "\<exists>new. writes w' = writes w @ new \<and> list_all crlf_utf8 new"
    by blast
next
  assume "\<exists>new. writes w' = writes w @ new \<and> list_all crlf_utf8 new"
  then show "wrote_crlf w w'"
    by (auto simp: wrote_crlf_def)
qed

lemma wrote_crlf_same: "writes w' = writes w \<Longrightarrow> wrote_crlf w w'"
  by (simp add: wrote_crlf_def)

lemma wrote_crlf_trans: "wrote_crlf w w' \<Longrightarrow> wrote_crlf w' w'' \<Longrightarrow> wrote_crlf w w''"
  unfolding wrote_crlf_iff by auto

lemma crlf_utf8_payload: "crlf_utf8 (p, s @ CRLF, ''utf8'')"
  by (simp add: crlf_utf8_def CRLF_def)

lemma wrote_crlf_writeFile: "wrote_crlf w w' \<Longrightarrow> wrote_crlf w (writeFile p s w')"
  unfolding wrote_crlf_iff by (auto simp: crlf_utf8_payload)

lemma wrote_crlf_step: "wrote_crlf w w' \<Longrightarrow> writes w'' = writes w' \<Longrightarrow> wrote_crlf w w''"
  unfolding wrote_crlf_iff by auto


lemma buildBlockRegistry_wrote: "wrote_crlf w (buildBlockRegistry E r w)"
  unfolding buildBlockRegistry_def Let_def
  by (intro wrote_crlf_writeFile wrote_crlf_step [OF _ writes_rimraf] wrote_crlf_same refl)

lemma buildStyles_item_wrote: "wrote_crlf w (buildStyles_item E tp w item)"
proof -
  let ?w1 = "foldl (\<lambda>w' e. console_error e w') w (style_errors E w item)"
  have "wrote_crlf w ?w1"
    by (rule wrote_crlf_same) simp
  then show ?thesis
    unfolding buildStyles_item_def Let_def
    by (simp add: wrote_crlf_same wrote_crlf_writeFile split: sum.splits)
qed

lemma buildStyles_loop_wrote:
  "wrote_crlf w0 w \<Longrightarrow> wrote_crlf w0 (foldl (buildStyles_item E tp) w r)"
proof (induction r arbitrary: w)
  case Nil
  then show ?case by simp
next
  case (Cons item r)
  have "wrote_crlf w0 (buildStyles_item E tp w item)"
    using Cons.prems buildStyles_item_wrote by (rule wrote_crlf_trans)
  then show ?case
    using Cons.IH by simp
qed

lemma buildStyles_wrote: "wrote_crlf w (buildStyles E r w)"
  unfolding buildStyles_def Let_def
  by (intro buildStyles_loop_wrote wrote_crlf_same) simp

lemma themes_loop_wrote:
  "wrote_crlf w0 w \<Longrightarrow> wrote_crlf w0 (snd (themes_loop E D bs w))"
proof (induction bs arbitrary: w)
  case Nil
  then show ?case by simp
next
  case (Cons b bs)
  show ?case
  proof (cases "theme_document E D b")
    case (Inl e)
    then show ?thesis using Cons.prems by simp
  next
    case (Inr payload)
    let ?tp = "path_join E [REGISTRY_PATH E, ''themes'']"
    let ?w1 = "if \<not> existsSync ?tp w then mkdir ?tp w else w"
    have "wrote_crlf w0 ?w1"
      using Cons.prems by (rule wrote_crlf_step) simp
    then have "wrote_crlf w0
      (writeFile (path_join E [?tp, theme_name payload @ ''.json'']) (stringify_theme E payload) ?w1)"
      by (rule wrote_crlf_writeFile)
    from Cons.IH [OF this] show ?thesis
      using Inr by (simp add: Let_def)
  qed
qed

lemma colors_loop_wrote:
  "wrote_crlf w0 w \<Longrightarrow> wrote_crlf w0 (snd (colors_loop E D bs w))"
proof (induction bs arbitrary: w)
  case Nil
  then show ?case by simp
next
  case (Cons b bs)
  show ?case
  proof (cases "base_document E D b")
    case (Inl e)
    then show ?thesis using Cons.prems by simp
  next
    case base: (Inr base)
    let ?w1 = "writeFile (path_join E [REGISTRY_PATH E, ''colors/'' @ b @ ''.json''])
                 (stringify_base E base) w"
    have w1: "wrote_crlf w0 ?w1"
      using Cons.prems by (rule wrote_crlf_writeFile)
    show ?thesis
    proof (cases "themeCSS E (baseColors E)")
      case (Inl e)
      then show ?thesis using base w1 by (simp add: Let_def)
    next
      case css: (Inr css)
      let ?w3 = "rimraf (path_join E [REGISTRY_PATH E, ''themes''])
                   (writeFile (path_join E [REGISTRY_PATH E, ''themes.css''])
                      (join ''\<newline>'' css) ?w1)"
      have w3: "wrote_crlf w0 ?w3"
        by (intro wrote_crlf_step [OF _ writes_rimraf] wrote_crlf_writeFile w1)
      obtain r w4 where t: "themes_loop E D base_families ?w3 = (r, w4)"
        by (cases "themes_loop E D base_families ?w3")
      have w4: "wrote_crlf w0 w4"
        using themes_loop_wrote [OF w3, of E D base_families] t by simp
      show ?thesis
      proof (cases r)
        case None
        then show ?thesis
          using base css t Cons.IH [OF w4] by (simp add: Let_def)
      next
        case (Some e)
        then show ?thesis
          using base css t w4 by (simp add: Let_def)
      qed
    qed
  qed
qed

lemma buildThemes_wrote: "wrote_crlf w (snd (buildThemes E w))"
  unfolding buildThemes_def Let_def
  by (intro colors_loop_wrote wrote_crlf_writeFile wrote_crlf_same) simp



subsection \<open>Validation of the merged list\<close>

text \<open>
  C1: when the schema rejects the merged list (the static registry followed by the
  crawled items), the run logs the validation error, exits with code 1 and writes no
  file: the log of writes, the disk and the standard output are as they were.
\<close>

theorem validation_failure_is_fatal:
  assumes "crawlContent E = Inr c"
    and "registrySchema_safeParse E (registry E @ c) = Inl e"
  shows "snd (main E w) = 1
       \<and> stderr (fst (main E w)) = stderr w @ [e]
       \<and> writes (fst (main E w)) = writes w
       \<and> disk (fst (main E w)) = disk w
       \<and> stdout (fst (main E w)) = stdout w"
  using assms by (simp add: main_def Let_def console_error_def mkdir_def)

text \<open>An item without a name makes the small registry invalid.\<close>

theorem validation_failure_is_fatal_witness:
  "snd (main (demo\<lparr>registry := [\<lparr>raw_name = None, raw_type = ''registry:ui'', raw_files = None\<rparr>]\<rparr>)
          demo_world) = 1
   \<and> stderr (fst (main (demo\<lparr>registry := [\<lparr>raw_name = None, raw_type = ''registry:ui'', raw_files = None\<rparr>]\<rparr>)
          demo_world)) = [ZodError ''name: Required'']
   \<and> writes (fst (main (demo\<lparr>registry := [\<lparr>raw_name = None, raw_type = ''registry:ui'', raw_files = None\<rparr>]\<rparr>)
          demo_world)) = []"
proof -
  let ?E = "demo\<lparr>registry := [\<lparr>raw_name = None, raw_type = ''registry:ui'', raw_files = None\<rparr>]\<rparr>"
  let ?c = "[\<lparr>raw_name = Some ''hero'', raw_type = ''registry:block'', raw_files = Some []\<rparr>,
             \<lparr>raw_name = Some ''notes'', raw_type = ''registry:example'', raw_files = None\<rparr>]"
  have h1: "crawlContent ?E = Inr ?c"
    by (simp add: demo_def)
  have h2: "registrySchema_safeParse ?E (registry ?E @ ?c) = Inl (ZodError ''name: Required'')"
    by (simp add: demo_def demo_registrySchema_def)
  from validation_failure_is_fatal [OF h1 h2, of demo_world] show ?thesis
    by (simp add: demo_world_def)
qed

subsection \<open>The registry index\<close>

lemma wrote_crlf_appends:
  "wrote_crlf w w' \<Longrightarrow> \<exists>new. writes w' = writes w @ new"
  unfolding wrote_crlf_iff by blast

lemma main_after_buildRegistry:
  assumes "crawlContent E = Inr c"
    and "registrySchema_safeParse E (registry E @ c) = Inr data"
  shows "\<exists>w2. writes w2 = writes w \<and> wrote_crlf (buildRegistry E data w2) (fst (main E w))"
proof -
  let ?w1 = "if \<not> existsSync (path_join E [cwd E, ''__registry__'']) w
             then mkdir (path_join E [cwd E, ''__registry__'']) w else w"
  let ?w2 = "if \<not> existsSync (REGISTRY_PATH E) ?w1 then mkdir (REGISTRY_PATH E) ?w1 else ?w1"
  let ?w3 = "buildRegistry E data ?w2"
  let ?w5 = "buildStyles E data (buildBlockRegistry E data ?w3)"
  have w5: "wrote_crlf ?w3 ?w5"
    by (intro wrote_crlf_trans [OF _ buildStyles_wrote] buildBlockRegistry_wrote)
  obtain r w6 where t: "buildThemes E ?w5 = (r, w6)"
    by (cases "buildThemes E ?w5")
  have w6: "wrote_crlf ?w3 w6"
    using wrote_crlf_trans [OF w5 buildThemes_wrote [of ?w5 E]] t by simp
  have "wrote_crlf ?w3 (fst (main E w))"
  proof (cases r)
    case None
    then show ?thesis
      using assms t wrote_crlf_step [OF w6, of "console_log Done w6"]
      by (simp add: main_def Let_def)
  next
    case (Some e)
    then show ?thesis
      using assms t wrote_crlf_step [OF w6, of "console_error e w6"]
      by (simp add: main_def Let_def)
  qed
  moreover have "writes ?w2 = writes w"
    by simp
  ultimately show ?thesis
    by blast
qed

lemma buildRegistry_writes:
  "writes (buildRegistry E data w) =
     writes w @
     [(path_join E [REGISTRY_PATH E, ''index.json''],
       stringify_index E (index_json_items data) @ CRLF, ''utf8''),
      (path_join E [cwd E, ''__registry__/index.ts''], registry_index E data @ CRLF, ''utf8'')]"
  by (simp add: buildRegistry_def Let_def)

text \<open>
  C10: a run whose merged list validates writes, before anything else, the document
  \<^verbatim>\<open>public/r/index.json\<close>: the validated items whose type is \<^verbatim>\<open>registry:ui\<close>, in
  their order, each with its \<^verbatim>\<open>files\<close> replaced by records of the file's \<^verbatim>\<open>path\<close>
  and the item's type.
\<close>

theorem registry_index_json:
  assumes "crawlContent E = Inr c"
    and "registrySchema_safeParse E (registry E @ c) = Inr data"
  shows "\<exists>rest. writes (fst (main E w)) =
           writes w @
           (path_join E [REGISTRY_PATH E, ''index.json''],
            stringify_index E
              (map (\<lambda>item. with_files item
                      (map_option (map (\<lambda>f. \<lparr>index_path = path_of f, index_type = type item\<rparr>))
                         (files item)))
                 (filter (\<lambda>item. type item = ''registry:ui'') data)) @ CRLF,
            ''utf8'') # rest"
proof -
  obtain w2 where w2: "writes w2 = writes w"
    and "wrote_crlf (buildRegistry E data w2) (fst (main E w))"
    using main_after_buildRegistry [OF assms] by blast
  then obtain new where "writes (fst (main E w)) = writes (buildRegistry E data w2) @ new"
    using wrote_crlf_appends by blast
  moreover have "index_json_items data =
      map (\<lambda>item. with_files item
              (map_option (map (\<lambda>f. \<lparr>index_path = path_of f, index_type = type item\<rparr>))
                 (files item)))
        (filter (\<lambda>item. type item = ''registry:ui'') data)"
    by (simp add: index_json_items_def index_json_item_def cong: map_cong)
  ultimately show ?thesis
    by (simp add: buildRegistry_writes w2)
qed

text \<open>In the small registry only \<^verbatim>\<open>button\<close> has the type \<^verbatim>\<open>registry:ui\<close>.\<close>

theorem registry_index_json_witness:
  "\<exists>rest. writes (fst (main demo demo_world)) =
     (''/repo/public/r/index.json'',
      ''[{\"name\":\"button\",\"type\":\"registry:ui\",\"files\":[{\"path\":\"ui/button/Button.vue\",\"type\":\"registry:ui\"}]}]''
        @ CRLF,
      ''utf8'') # rest"
proof -
  let ?c = "[\<lparr>raw_name = Some ''hero'', raw_type = ''registry:block'', raw_files = Some []\<rparr>,
             \<lparr>raw_name = Some ''notes'', raw_type = ''registry:example'', raw_files = None\<rparr>]"
  let ?data = "map demo_item (registry demo @ ?c)"
  have h1: "crawlContent demo = Inr ?c"
    by (simp add: demo_def)
  have h2: "registrySchema_safeParse demo (registry demo @ ?c) = Inr ?data"
    by (simp add: demo_def demo_registrySchema_def)
  from registry_index_json [OF h1 h2, of demo_world] show ?thesis
    by (simp add: demo_def demo_world_def demo_item_def REGISTRY_PATH_def with_files_def
        show_array_def show_item_def show_obj_def show_option_def show_index_file_def quote_def
        or_empty_def)
qed

subsection \<open>Entries of the two index modules\<close>

lemma index_loop_append:
  "index_loop E acc (xs @ ys) = index_loop E (index_loop E acc xs) ys"
  by (induction xs arbitrary: acc) (simp_all split: option.splits)

lemma block_loop_append:
  "block_loop E acc (xs @ ys) = block_loop E (block_loop E acc xs) ys"
  by (induction xs arbitrary: acc) (simp_all split: option.splits)

text \<open>
  C4, as the script has it: an item whose \<^verbatim>\<open>files\<close> property is absent adds nothing
  to the generated index module nor to the generated block index module; the text of
  each module is the text for the registry without that item.
\<close>

theorem absent_files_no_entry:
  assumes "files item = None"
  shows "registry_index E (xs @ item # ys) = registry_index E (xs @ ys)
       \<and> block_index E (xs @ item # ys) = block_index E (xs @ ys)"
  using assms
  by (simp add: registry_index_def block_index_def index_loop_append block_loop_append)

text \<open>
  A registry of one block without \<^verbatim>\<open>files\<close> gives the two empty modules: in both
  loops it is the test of the files that passes over it.
\<close>

theorem absent_files_no_entry_witness:
  "registry_index demo
     [\<lparr>name = ''panel'', type = ''registry:block'', description = None,
       registryDependencies = None, files = None, category = None, subcategory = None\<rparr>]
     = index_header @ index_footer
   \<and> block_index demo
     [\<lparr>name = ''panel'', type = ''registry:block'', description = None,
       registryDependencies = None, files = None, category = None, subcategory = None\<rparr>]
     = block_header @ index_footer"
  using absent_files_no_entry [of
      "\<lparr>name = ''panel'', type = ''registry:block'', description = None,
        registryDependencies = None, files = None, category = None, subcategory = None\<rparr>"
      demo "[]" "[]"]
  by (simp add: registry_index_def block_index_def)

text \<open>
  C4 as stated covers every item with zero file references. An item whose \<^verbatim>\<open>files\<close>
  is the empty array has none, and both modules hold its entry: the script passes over
  an item only when \<^verbatim>\<open>item.files?.map(...)\<close> is \<^verbatim>\<open>undefined\<close>.
\<close>

theorem empty_files_entry_counterexample:
  "files \<lparr>name = ''hero'', type = ''registry:block'', description = None,
       registryDependencies = None, files = Some ([] :: registry_file list), category = None,
       subcategory = None\<rparr> = Some []
   \<and> contains (registry_index demo
       [\<lparr>name = ''hero'', type = ''registry:block'', description = None,
         registryDependencies = None, files = Some [], category = None, subcategory = None\<rparr>])
       ''name: \"hero\"''
   \<and> contains (block_index demo
       [\<lparr>name = ''hero'', type = ''registry:block'', description = None,
         registryDependencies = None, files = Some [], category = None, subcategory = None\<rparr>])
       ''name: \"hero\"''"
  by (simp add: registry_index_def block_index_def index_entry_def block_entry_def
      index_header_def block_header_def index_footer_def)

subsection \<open>The component path\<close>

text \<open>
  The component path is the first file's \<^verbatim>\<open>path\<close> below the content root when that
  file is an object, and the conventional path when the array is empty.
\<close>

lemma componentPath_first_object:
  "files item = Some (FileObject f # fs) \<Longrightarrow>
   componentPath item = ''@/components/content/inspira/'' @ path f"
  by (simp add: componentPath_def interpolate_def)

lemma componentPath_conventional:
  "files item = Some [] \<Longrightarrow> split CHR '':'' (type item) = [a, b] \<Longrightarrow>
   componentPath item = ''@/components/content/inspira/'' @ b @ ''/'' @ name item"
  by (simp add: componentPath_def interpolate_def)

text \<open>
  C5 at an item whose first file is a bare path: the script reads \<^verbatim>\<open>.path\<close> of the
  string, so the component path ends in \<^verbatim>\<open>undefined\<close>, where the file list of the
  same entry (\<^verbatim>\<open>typeof file === "string" ? file : file.path\<close>) uses the string.
\<close>

theorem componentPath_bare_string:
  "componentPath
     \<lparr>name = ''button'', type = ''registry:ui'', description = None,
      registryDependencies = None, files = Some [FileString ''ui/button/Button.vue''],
      category = None, subcategory = None\<rparr>
   = ''@/components/content/inspira/undefined''"
  by (simp add: componentPath_def interpolate_def)

subsection \<open>Style documents\<close>

lemma stderr_log_errors [simp]:
  "stderr (foldl (\<lambda>w' e. console_error e w') w es) = stderr w @ es"
  by (induction es arbitrary: w) (simp_all add: console_error_def)

lemma disk_log_errors [simp]:
  "disk (foldl (\<lambda>w' e. console_error e w') w es) = disk w"
  by (induction es arbitrary: w) (simp_all add: console_error_def)

lemma stdout_log_errors [simp]:
  "stdout (foldl (\<lambda>w' e. console_error e w') w es) = stdout w"
  by (induction es arbitrary: w) (simp_all add: console_error_def)

lemma stderr_writeFile [simp]: "stderr (writeFile p s w) = stderr w"
  by (simp add: writeFile_def fs_writeFile_def)

lemma mset_read_errors:
  "mset (thrown_at_once E w fs) + mset (map snd (rejected_later E w i fs))
     = mset (read_errors (map (read_style_file E w) fs))"
proof (induction fs arbitrary: i)
  case Nil
  show ?case by simp
next
  case (Cons f fs)
  show ?case
  proof (cases f)
    case (FileString s)
    then show ?thesis
      using Cons.IH [of "Suc i"] by simp
  next
    case (FileObject fo)
    then show ?thesis
      using Cons.IH [of "Suc i"]
      by (cases "read_style_file E w (FileObject fo)") simp_all
  qed
qed

lemma mset_style_errors:
  "mset (style_errors E w item)
     = mset (case style_reads E w item of None \<Rightarrow> [] | Some rs \<Rightarrow> read_errors rs)"
proof (cases "files item")
  case None
  then show ?thesis
    by (simp add: style_errors_def style_reads_def)
next
  case (Some fs)
  have "mset (map snd (sort_key (\<lambda>(i, e). settles E (name item) i) (rejected_later E w 0 fs)))
      = mset (map snd (rejected_later E w 0 fs))"
    by (simp only: mset_map mset_sort)
  then show ?thesis
    using Some mset_read_errors [of E w fs 0]
    by (simp add: style_errors_def style_reads_def)
qed

text \<open>
  C7: for an item of a whitelisted type, when the entry schema rejects the assembled
  payload, the item is passed over in silence: no file is written, the disk and the
  standard output are untouched, and what the error stream receives are the read errors
  of the item's files, each once and in some order, and nothing about the validation.
  When the schema accepts the payload, the data it returns is written to
  \<^verbatim>\<open><name>.json\<close> in the target directory.
\<close>

theorem style_validation_gate:
  assumes "type item \<in> set REGISTRY_INDEX_WHITELIST"
  shows "(\<forall>e. registryEntrySchema_safeParse E (style_payload E w item) = Inl e \<longrightarrow>
            writes (buildStyles_item E targetPath w item) = writes w
          \<and> disk (buildStyles_item E targetPath w item) = disk w
          \<and> stdout (buildStyles_item E targetPath w item) = stdout w
          \<and> (\<exists>es. stderr (buildStyles_item E targetPath w item) = stderr w @ es
                \<and> mset es = mset (case style_reads E w item of
                                     None \<Rightarrow> []
                                   | Some rs \<Rightarrow> read_errors rs)))
       \<and> (\<forall>d. registryEntrySchema_safeParse E (style_payload E w item) = Inr d \<longrightarrow>
            writes (buildStyles_item E targetPath w item) =
              writes w @
              [(path_join E [targetPath, name item @ ''.json''], stringify_style E d @ CRLF, ''utf8'')]
          \<and> (\<exists>es. stderr (buildStyles_item E targetPath w item) = stderr w @ es
                \<and> mset es = mset (case style_reads E w item of
                                     None \<Rightarrow> []
                                   | Some rs \<Rightarrow> read_errors rs)))"
  using assms mset_style_errors [of E w item]
  by (simp add: buildStyles_item_def Let_def)

text \<open>
  In the small registry: \<^verbatim>\<open>card\<close> names a file that is not on disk and is rejected,
  \<^verbatim>\<open>button\<close> is accepted and written. For \<^verbatim>\<open>mixed\<close>, the error of the bare string
  is logged before the error of the file object that precedes it.
\<close>

theorem style_validation_gate_witness:
  "writes (buildStyles_item demo ''/repo/public/r/styles'' demo_world
     \<lparr>name = ''card'', type = ''registry:ui'', description = None, registryDependencies = None,
      files = Some [FileObject \<lparr>path = ''ui/card/Card.vue'', file_type = ''registry:ui'', target = None\<rparr>],
      category = None, subcategory = None\<rparr>) = []
   \<and> writes (buildStyles_item demo ''/repo/public/r/styles'' demo_world
     \<lparr>name = ''button'', type = ''registry:ui'', description = None, registryDependencies = None,
      files = Some [FileObject \<lparr>path = ''ui/button/Button.vue'', file_type = ''registry:ui'', target = None\<rparr>],
      category = None, subcategory = None\<rparr>)
     = [(''/repo/public/r/styles/button.json'',
         ''{\"name\":\"button\",\"type\":\"registry:ui\",\"files\":[{\"path\":\"ui/button/Button.vue\",\"type\":\"registry:ui\",\"content\":\"<template />\",\"target\":\"\"}]}''
           @ CRLF,
         ''utf8'')]
   \<and> stderr (buildStyles_item demo ''/repo/public/r/styles'' demo_world
     \<lparr>name = ''mixed'', type = ''registry:ui'', description = None, registryDependencies = None,
      files = Some [FileObject \<lparr>path = ''ui/card/Card.vue'', file_type = ''registry:ui'', target = None\<rparr>,
                    FileString ''ui/card/Card.vue''],
      category = None, subcategory = None\<rparr>)
     = [TypeError ''The \"path\" argument must be of type string. Received undefined'',
        FsError ''/repo/components/content/inspira/ui/card/Card.vue'']"
proof -
  let ?card = "\<lparr>name = ''card'', type = ''registry:ui'', description = None,
      registryDependencies = None,
      files = Some [FileObject \<lparr>path = ''ui/card/Card.vue'', file_type = ''registry:ui'', target = None\<rparr>],
      category = None, subcategory = None\<rparr>"
  let ?button = "\<lparr>name = ''button'', type = ''registry:ui'', description = None,
      registryDependencies = None,
      files = Some [FileObject \<lparr>path = ''ui/button/Button.vue'', file_type = ''registry:ui'', target = None\<rparr>],
      category = None, subcategory = None\<rparr>"
  let ?data = "\<lparr>name = ''button'', type = ''registry:ui'', description = None,
      registryDependencies = None,
      files = Some [Some \<lparr>style_path = ''ui/button/Button.vue'', style_type = ''registry:ui'',
        content = ''<template />'', style_target = []\<rparr>],
      category = None, subcategory = None\<rparr>"
  have h1: "type ?card \<in> set REGISTRY_INDEX_WHITELIST"
    and h2: "type ?button \<in> set REGISTRY_INDEX_WHITELIST"
    by (simp_all add: REGISTRY_INDEX_WHITELIST_def)
  have v1: "registryEntrySchema_safeParse demo (style_payload demo demo_world ?card)
      = Inl (ZodError ''files: Required'')"
    by (simp add: demo_def demo_world_def demo_entrySchema_def style_payload_def
        style_reads_def with_files_def fs_readFile_def)
  have v2: "registryEntrySchema_safeParse demo (style_payload demo demo_world ?button) = Inr ?data"
    by (simp add: demo_def demo_world_def demo_entrySchema_def style_payload_def
        style_reads_def with_files_def fs_readFile_def or_empty_def)
  have s: "stringify_style demo ?data =
      ''{\"name\":\"button\",\"type\":\"registry:ui\",\"files\":[{\"path\":\"ui/button/Button.vue\",\"type\":\"registry:ui\",\"content\":\"<template />\",\"target\":\"\"}]}''"
    by (simp add: demo_def show_array_def show_item_def show_obj_def show_option_def
        show_style_file_def quote_def)
  have p: "path_join demo [''/repo/public/r/styles'', name ?button @ ''.json'']
      = ''/repo/public/r/styles/button.json''"
    by (simp add: demo_def)
  from style_validation_gate [OF h1, of demo demo_world "''/repo/public/r/styles''"] v1
  have "writes (buildStyles_item demo ''/repo/public/r/styles'' demo_world ?card) = writes demo_world"
    by blast
  moreover
  from style_validation_gate [OF h2, of demo demo_world "''/repo/public/r/styles''"] v2
  have "writes (buildStyles_item demo ''/repo/public/r/styles'' demo_world ?button) =
      writes demo_world @
      [(path_join demo [''/repo/public/r/styles'', name ?button @ ''.json''],
        stringify_style demo ?data @ CRLF, ''utf8'')]"
    by blast
  moreover
  have "stderr (buildStyles_item demo ''/repo/public/r/styles'' demo_world
     \<lparr>name = ''mixed'', type = ''registry:ui'', description = None, registryDependencies = None,
      files = Some [FileObject \<lparr>path = ''ui/card/Card.vue'', file_type = ''registry:ui'', target = None\<rparr>,
                    FileString ''ui/card/Card.vue''],
      category = None, subcategory = None\<rparr>)
     = [TypeError ''The \"path\" argument must be of type string. Received undefined'',
        FsError ''/repo/components/content/inspira/ui/card/Card.vue'']"
    by code_simp
  ultimately show ?thesis
    unfolding s p by (simp add: demo_world_def)
qed

subsection \<open>A file that cannot be read\<close>

lemma stderr_mkdir [simp]: "stderr (mkdir p w) = stderr w"
  by (simp add: mkdir_def)

lemma stderr_rimraf [simp]: "stderr (rimraf p w) = stderr w"
  by (simp add: rimraf_def)

lemma stderr_console_log [simp]: "stderr (console_log s w) = stderr w"
  by (simp add: console_log_def)

lemma stderr_buildStyles_item:
  "\<exists>es. stderr (buildStyles_item E tp w item) = stderr w @ es"
  by (simp add: buildStyles_item_def Let_def split: sum.splits)

lemma stderr_styles_loop:
  "\<exists>es. stderr (foldl (buildStyles_item E tp) w items) = stderr w @ es"
proof (induction items arbitrary: w)
  case Nil
  show ?case by simp
next
  case (Cons item items)
  obtain es where "stderr (buildStyles_item E tp w item) = stderr w @ es"
    using stderr_buildStyles_item by blast
  moreover obtain es' where
    "stderr (foldl (buildStyles_item E tp) (buildStyles_item E tp w item) items)
       = stderr (buildStyles_item E tp w item) @ es'"
    using Cons.IH by blast
  ultimately show ?case
    by simp
qed

lemma stderr_themes_loop: "stderr (snd (themes_loop E D bs w)) = stderr w"
proof (induction bs arbitrary: w)
  case Nil
  show ?case by simp
next
  case (Cons b bs)
  show ?case
    by (cases "theme_document E D b") (simp_all add: Let_def Cons.IH)
qed

lemma stderr_colors_loop: "stderr (snd (colors_loop E D bs w)) = stderr w"
proof (induction bs arbitrary: w)
  case Nil
  show ?case by simp
next
  case (Cons b bs)
  show ?case
  proof (cases "base_document E D b")
    case (Inl e)
    then show ?thesis by simp
  next
    case base: (Inr base)
    show ?thesis
    proof (cases "themeCSS E (baseColors E)")
      case (Inl e)
      then show ?thesis using base by (simp add: Let_def)
    next
      case css: (Inr css)
      let ?w3 = "rimraf (path_join E [REGISTRY_PATH E, ''themes''])
                   (writeFile (path_join E [REGISTRY_PATH E, ''themes.css''])
                      (join ''\<newline>'' css)
                      (writeFile (path_join E [REGISTRY_PATH E, ''colors/'' @ b @ ''.json''])
                         (stringify_base E base) w))"
      obtain r w4 where t: "themes_loop E D base_families ?w3 = (r, w4)"
        by (cases "themes_loop E D base_families ?w3")
      have w4: "stderr w4 = stderr w"
        using stderr_themes_loop [of E D base_families ?w3] t by simp
      show ?thesis
      proof (cases r)
        case None
        then show ?thesis
          using base css t w4 Cons.IH [of w4] by (simp add: Let_def)
      next
        case (Some e)
        then show ?thesis
          using base css t w4 by (simp add: Let_def)
      qed
    qed
  qed
qed

lemma stderr_buildThemes: "stderr (snd (buildThemes E w)) = stderr w"
  unfolding buildThemes_def Let_def by (simp add: stderr_colors_loop)

lemma main_reached:
  assumes "crawlContent E = Inr c"
    and "registrySchema_safeParse E (registry E @ c) = Inr data"
  shows "main E w =
     (case buildThemes E (reached E data data w) of
        (Some e, w6) \<Rightarrow> (console_error e w6, 1)
      | (None, w6) \<Rightarrow> (console_log Done w6, 0))"
  using assms
  by (simp add: main_def buildStyles_def reached_def styles_begin_def Let_def)

lemma reached_item:
  "reached E data (before @ item # after) w =
     foldl (buildStyles_item E (path_join E [REGISTRY_PATH E, ''styles'']))
       (buildStyles_item E (path_join E [REGISTRY_PATH E, ''styles'']) (reached E data before w) item)
       after"
  by (simp add: reached_def)

lemma unread_file_errors:
  assumes "files item = Some [f1, f2]"
    and "read_style_file E w f1 = Inr s1"
    and "read_style_file E w f2 = Inl e"
  shows "style_errors E w item = [e]"
proof -
  obtain o1 where f1: "f1 = FileObject o1"
    using assms(2) by (cases f1) simp_all
  show ?thesis
    using assms f1 by (cases f2) (simp_all add: style_errors_def)
qed

text \<open>
  C2, as the script has it: when an item of a whitelisted type references two files,
  the first of which is read and the second of which is not, the read error is logged,
  the slot of the second file stays in the \<^verbatim>\<open>files\<close> array of the payload, holding
  \<^verbatim>\<open>undefined\<close>, and the item is written exactly when the entry schema accepts that
  payload, with the data the schema returns. A run that reaches the item in this state
  and whose theme stage does not throw ends with exit code 0, the read error in its
  error stream.
\<close>

theorem unread_file_keeps_its_slot:
  assumes "type item \<in> set REGISTRY_INDEX_WHITELIST"
    and "files item = Some [f1, f2]"
    and "read_style_file E w f1 = Inr s1"
    and "read_style_file E w f2 = Inl e"
  shows "style_payload E w item = with_files item (Some [Some s1, None])
       \<and> stderr (buildStyles_item E targetPath w item) = stderr w @ [e]
       \<and> writes (buildStyles_item E targetPath w item) =
           (case registryEntrySchema_safeParse E (with_files item (Some [Some s1, None])) of
              Inl z \<Rightarrow> writes w
            | Inr d \<Rightarrow>
                writes w @
                [(path_join E [targetPath, name item @ ''.json''], stringify_style E d @ CRLF,
                  ''utf8'')])
       \<and> (\<forall>c before after w0.
             crawlContent E = Inr c
             \<and> registrySchema_safeParse E (registry E @ c) = Inr (before @ item # after)
             \<and> targetPath = path_join E [REGISTRY_PATH E, ''styles'']
             \<and> w = reached E (before @ item # after) before w0
             \<and> fst (buildThemes E
                    (reached E (before @ item # after) (before @ item # after) w0)) = None
             \<longrightarrow> snd (main E w0) = 0 \<and> e \<in> set (stderr (fst (main E w0))))"
proof -
  have p: "style_payload E w item = with_files item (Some [Some s1, None])"
    using assms by (simp add: style_payload_def style_reads_def)
  have e: "style_errors E w item = [e]"
    using assms(2,3,4) by (rule unread_file_errors)
  have s: "stderr (buildStyles_item E targetPath w item) = stderr w @ [e]"
    using assms(1) by (simp add: buildStyles_item_def Let_def e console_error_def split: sum.splits)
  have wr: "writes (buildStyles_item E targetPath w item) =
           (case registryEntrySchema_safeParse E (with_files item (Some [Some s1, None])) of
              Inl z \<Rightarrow> writes w
            | Inr d \<Rightarrow>
                writes w @
                [(path_join E [targetPath, name item @ ''.json''], stringify_style E d @ CRLF,
                  ''utf8'')])"
    using assms(1) by (simp add: buildStyles_item_def Let_def p split: sum.splits)
  have run: "snd (main E w0) = 0 \<and> e \<in> set (stderr (fst (main E w0)))"
    if c: "crawlContent E = Inr c"
      and d: "registrySchema_safeParse E (registry E @ c) = Inr (before @ item # after)"
      and tp: "targetPath = path_join E [REGISTRY_PATH E, ''styles'']"
      and w: "w = reached E (before @ item # after) before w0"
      and t: "fst (buildThemes E (reached E (before @ item # after) (before @ item # after) w0)) = None"
    for c before after w0
  proof -
    let ?data = "before @ item # after"
    let ?w5 = "reached E ?data ?data w0"
    obtain w6 where b: "buildThemes E ?w5 = (None, w6)"
      using t by (cases "buildThemes E ?w5") simp
    have m: "main E w0 = (console_log Done w6, 0)"
      using main_reached [OF c d, of w0] b by simp
    have "stderr w6 = stderr ?w5"
      using stderr_buildThemes [of E ?w5] b by simp
    moreover obtain es where
      "stderr ?w5 = stderr (buildStyles_item E targetPath w item) @ es"
      unfolding reached_item tp w using stderr_styles_loop by blast
    ultimately have "stderr (fst (main E w0)) = stderr w @ [e] @ es"
      using m s by simp
    then show ?thesis
      using m by simp
  qed
  show ?thesis
    using p s wr run by blast
qed

text \<open>The theme stage does not throw when every document of every family is built.\<close>

lemma themes_loop_ok:
  "list_all (\<lambda>b. \<not> isl (theme_document E D b)) bs \<Longrightarrow> fst (themes_loop E D bs w) = None"
proof (induction bs arbitrary: w)
  case Nil
  show ?case by simp
next
  case (Cons b bs)
  then show ?case
    by (cases "theme_document E D b") (simp_all add: Let_def)
qed

lemma colors_loop_ok:
  assumes "list_all (\<lambda>b. \<not> isl (base_document E D b)) bs"
    and "\<not> isl (themeCSS E (baseColors E))"
    and "list_all (\<lambda>b. \<not> isl (theme_document E D b)) base_families"
  shows "fst (colors_loop E D bs w) = None"
  using assms(1)
proof (induction bs arbitrary: w)
  case Nil
  show ?case by simp
next
  case (Cons b bs)
  obtain base where base: "base_document E D b = Inr base"
    using Cons.prems by (cases "base_document E D b") simp_all
  obtain css where css: "themeCSS E (baseColors E) = Inr css"
    using assms(2) by (cases "themeCSS E (baseColors E)") simp_all
  let ?w3 = "rimraf (path_join E [REGISTRY_PATH E, ''themes''])
               (writeFile (path_join E [REGISTRY_PATH E, ''themes.css''])
                  (join ''\<newline>'' css)
                  (writeFile (path_join E [REGISTRY_PATH E, ''colors/'' @ b @ ''.json''])
                     (stringify_base E base) w))"
  obtain w4 where t: "themes_loop E D base_families ?w3 = (None, w4)"
    using themes_loop_ok [OF assms(3), of ?w3] by (cases "themes_loop E D base_families ?w3") simp
  show ?case
    using base css t Cons.IH [of w4] Cons.prems by (simp add: Let_def)
qed

lemma buildThemes_ok:
  assumes "list_all (\<lambda>b. \<not> isl (base_document E (colorsData_of (colors E)) b)) base_families"
    and "\<not> isl (themeCSS E (baseColors E))"
    and "list_all (\<lambda>b. \<not> isl (theme_document E (colorsData_of (colors E)) b)) base_families"
  shows "fst (buildThemes E w) = None"
  unfolding buildThemes_def Let_def using assms by (rule colors_loop_ok)

text \<open>
  The run of \<open>demo_with_card\<close>: it reaches \<^verbatim>\<open>card\<close> after \<^verbatim>\<open>button\<close>, logs the
  error of the missing file and ends with exit code 0; the payload of \<^verbatim>\<open>card\<close> has
  two slots.
\<close>

theorem unread_file_keeps_its_slot_witness:
  "snd (main demo_with_card demo_world) = 0
   \<and> FsError ''/repo/components/content/inspira/ui/card/Card.vue''
       \<in> set (stderr (fst (main demo_with_card demo_world)))
   \<and> files (style_payload demo_with_card
        (reached demo_with_card (map demo_item (registry demo @ [raw_card]))
           (map demo_item (registry demo)) demo_world)
        (demo_item raw_card))
     = Some [Some \<lparr>style_path = ''ui/button/Button.vue'', style_type = ''registry:ui'',
                    content = ''<template />'', style_target = []\<rparr>, None]"
proof -
  let ?E = demo_with_card
  let ?f1 = "FileObject \<lparr>path = ''ui/button/Button.vue'', file_type = ''registry:ui'', target = None\<rparr>"
  let ?f2 = "FileObject \<lparr>path = ''ui/card/Card.vue'', file_type = ''registry:ui'', target = None\<rparr>"
  let ?s1 = "\<lparr>style_path = ''ui/button/Button.vue'', style_type = ''registry:ui'',
      content = ''<template />'', style_target = []\<rparr>"
  let ?e = "FsError ''/repo/components/content/inspira/ui/card/Card.vue''"
  let ?before = "map demo_item (registry demo)"
  let ?item = "demo_item raw_card"
  let ?data = "?before @ ?item # []"
  let ?w = "reached ?E ?data ?before demo_world"
  have h1: "type ?item \<in> set REGISTRY_INDEX_WHITELIST"
    by (simp add: REGISTRY_INDEX_WHITELIST_def demo_item_def raw_card_def)
  have h2: "files ?item = Some [?f1, ?f2]"
    by (simp add: demo_item_def raw_card_def)
  have h3: "read_style_file ?E ?w ?f1 = Inr ?s1"
    by code_simp
  have h4: "read_style_file ?E ?w ?f2 = Inl ?e"
    by code_simp
  have c: "crawlContent ?E = Inr [raw_card]"
    by (simp add: demo_with_card_def)
  have d: "registrySchema_safeParse ?E (registry ?E @ [raw_card]) = Inr ?data"
    by (simp add: demo_with_card_def demo_def demo_registrySchema_def raw_card_def)
  have tp: "''/repo/public/r/styles'' = path_join ?E [REGISTRY_PATH ?E, ''styles'']"
    by (simp add: demo_with_card_def demo_def REGISTRY_PATH_def)
  have b1: "list_all (\<lambda>b. \<not> isl (base_document ?E (colorsData_of (colors ?E)) b)) base_families"
    by code_simp
  have b2: "\<not> isl (themeCSS ?E (baseColors ?E))"
    by code_simp
  have b3: "list_all (\<lambda>b. \<not> isl (theme_document ?E (colorsData_of (colors ?E)) b)) base_families"
    by code_simp
  have t: "fst (buildThemes ?E (reached ?E ?data ?data demo_world)) = None"
    using b1 b2 b3 by (rule buildThemes_ok)
  note u = unread_file_keeps_its_slot [OF h1 h2 h3 h4, of "''/repo/public/r/styles''"]
  have "snd (main ?E demo_world) = 0 \<and> ?e \<in> set (stderr (fst (main ?E demo_world)))"
    using u c d tp t by blast
  moreover have "style_payload ?E ?w ?item = with_files ?item (Some [Some ?s1, None])"
    using u by blast
  ultimately show ?thesis
    by (simp add: with_files_def)
qed

text \<open>
  C2 as stated has the item written with the readable file's entry only. With an entry
  schema that requires a file in every slot the run writes nothing for the item; with
  one that accepts every payload the document has two slots, the second one
  \<^verbatim>\<open>null\<close>.
\<close>

theorem unread_file_counterexample:
  "writes (buildStyles demo
     [\<lparr>name = ''card'', type = ''registry:ui'', description = None, registryDependencies = None,
       files = Some [FileObject \<lparr>path = ''ui/button/Button.vue'', file_type = ''registry:ui'', target = None\<rparr>,
                     FileObject \<lparr>path = ''ui/card/Card.vue'', file_type = ''registry:ui'', target = None\<rparr>],
       category = None, subcategory = None\<rparr>] demo_world) = []
   \<and> map (fst \<circ> snd) (writes (buildStyles (demo\<lparr>registryEntrySchema_safeParse := Inr\<rparr>)
     [\<lparr>name = ''card'', type = ''registry:ui'', description = None, registryDependencies = None,
       files = Some [FileObject \<lparr>path = ''ui/button/Button.vue'', file_type = ''registry:ui'', target = None\<rparr>,
                     FileObject \<lparr>path = ''ui/card/Card.vue'', file_type = ''registry:ui'', target = None\<rparr>],
       category = None, subcategory = None\<rparr>] demo_world))
     = [''{\"name\":\"card\",\"type\":\"registry:ui\",\"files\":[{\"path\":\"ui/button/Button.vue\",\"type\":\"registry:ui\",\"content\":\"<template />\",\"target\":\"\"},null]}''
        @ CRLF]"
  by (simp add: buildStyles_def buildStyles_item_def Let_def REGISTRY_INDEX_WHITELIST_def
      REGISTRY_PATH_def demo_def demo_world_def demo_entrySchema_def style_payload_def
      style_reads_def style_errors_def with_files_def fs_readFile_def or_empty_def
      existsSync_def mkdir_def console_error_def
      show_array_def show_item_def show_obj_def show_option_def show_style_file_def quote_def)

subsection \<open>The flat colour index\<close>

lemma map_of_colorsData:
  "map_of (colorsData_of cs) k = map_option colorsData_value (map_of cs k)"
  by (induction cs) (auto simp: colorsData_of_def)

text \<open>
  C8, as the script has it: in the flat colour index an array-valued entry has each of
  its shades extended by \<^verbatim>\<open>rgbChannel\<close> and \<^verbatim>\<open>hslChannel\<close>, computed from the
  shade's \<^verbatim>\<open>rgb\<close> and \<^verbatim>\<open>hsl\<close> strings, a single colour object is extended in the
  same way, and a string entry is copied as it is. Extending a colour changes none of
  its own properties.
\<close>

theorem colour_index_entries:
  assumes "map_of cs k = Some v"
  shows "map_of (colorsData_of cs) k =
           Some (case v of
                   ColorString s \<Rightarrow> ColorString s
                 | ColorArray shades \<Rightarrow> ColorArray (map add_channels shades)
                 | ColorObject c \<Rightarrow> ColorObject (add_channels c))
       \<and> (\<forall>c. rgbChannel (add_channels c) = rgbChannel_of (rgb c)
              \<and> hslChannel (add_channels c) = hslChannel_of (hsl c)
              \<and> scale (add_channels c) = scale c
              \<and> rgb (add_channels c) = rgb c
              \<and> hsl (add_channels c) = hsl c
              \<and> color_channels.more (add_channels c) = color_token.more c)"
  using assms by (cases v) (simp_all add: map_of_colorsData add_channels_def)

text \<open>The family \<^verbatim>\<open>slate\<close> and the colour \<^verbatim>\<open>white\<close> of the small table.\<close>

theorem colour_index_entries_witness:
  "map_of (colorsData_of (colors demo)) ''slate'' =
     Some (ColorArray
       [\<lparr>scale = Some 50, rgb = ''rgb(248,250,252)'', hsl = ''hsl(210,40%,98%)'',
         rgbChannel = ''248 250 252'', hslChannel = ''210 40% 98%''\<rparr>,
        \<lparr>scale = Some 950, rgb = ''rgb(2,6,23)'', hsl = ''hsl(228.8,84%,4.9%)'',
         rgbChannel = ''2 6 23'', hslChannel = ''228.8 84% 4.9%''\<rparr>])
   \<and> map_of (colorsData_of (colors demo)) ''white'' =
     Some (ColorObject
       \<lparr>scale = None, rgb = ''rgb(255,255,255)'', hsl = ''hsl(0,0%,100%)'',
        rgbChannel = ''255 255 255'', hslChannel = ''0 0% 100%''\<rparr>)"
proof -
  let ?shades = "[\<lparr>scale = Some 50, rgb = ''rgb(248,250,252)'', hsl = ''hsl(210,40%,98%)''\<rparr>,
             \<lparr>scale = Some 950, rgb = ''rgb(2,6,23)'', hsl = ''hsl(228.8,84%,4.9%)''\<rparr>]"
  let ?white = "\<lparr>scale = None, rgb = ''rgb(255,255,255)'', hsl = ''hsl(0,0%,100%)''\<rparr>"
  have h1: "map_of (colors demo) ''slate'' = Some (ColorArray ?shades)"
    by (simp add: demo_def)
  have h2: "map_of (colors demo) ''white'' = Some (ColorObject ?white)"
    by (simp add: demo_def)
  have "rgbChannel_of ''rgb(248,250,252)'' = ''248 250 252''"
    "hslChannel_of ''hsl(210,40%,98%)'' = ''210 40% 98%''"
    "rgbChannel_of ''rgb(2,6,23)'' = ''2 6 23''"
    "hslChannel_of ''hsl(228.8,84%,4.9%)'' = ''228.8 84% 4.9%''"
    "rgbChannel_of ''rgb(255,255,255)'' = ''255 255 255''"
    "hslChannel_of ''hsl(0,0%,100%)'' = ''0 0% 100%''"
    by (simp_all add: rgbChannel_of_def hslChannel_of_def rgb_groups_def hsl_groups_def
        many1_def is_digit_def is_digit_or_dot_def)
  then show ?thesis
    using colour_index_entries [OF h1] colour_index_entries [OF h2]
    by (simp add: add_channels_def)
qed

text \<open>
  C8 as stated gives the channel fields to a scalar entry too. The entry
  \<^verbatim>\<open>inherit\<close>, a string, is in the index as that string, with no field at all.
\<close>

theorem string_colour_counterexample:
  "map_of (colorsData_of (colors demo)) ''inherit'' = Some (ColorString ''inherit'')"
  by (simp add: colorsData_of_def demo_def)

subsection \<open>The two passes over the colour mapping\<close>















end
